theory Spec2Isabelle
  imports Main
begin

section \<open>JavaScript values used by the versions reducer and the Compare page\<close>

text \<open>
  The repository is TypeScript. Numbers that name add-ons and versions reach the code through
  \<^verbatim>\<open>parseInt(s, 10)\<close>, which yields \<^verbatim>\<open>NaN\<close> on a string with no leading digits, so a
  number is either \<open>NaN\<close> or an integer. JavaScript numbers are doubles: the integer model
  agrees with them for magnitudes up to \<open>2 ^ 53\<close>, the range \<open>safe_integer\<close> names.
  Strings are taken to be ASCII.
\<close>

datatype jsnum = NaN | Num int

definition safe_integer :: "int \<Rightarrow> bool" where
  "safe_integer i = (\<bar>i\<bar> \<le> 2 ^ 53)"

text \<open>\<^verbatim>\<open>a > b\<close> on numbers: false as soon as one side is \<^verbatim>\<open>NaN\<close>.\<close>

fun js_gt :: "jsnum \<Rightarrow> jsnum \<Rightarrow> bool" where
  "js_gt (Num a) (Num b) = (a > b)"
| "js_gt _ _ = False"

definition is_space :: "char \<Rightarrow> bool" where
  "is_space c = (c \<in> set [CHR '' '', CHR 0x09, CHR 0x0A, CHR 0x0B, CHR 0x0C, CHR 0x0D])"

definition is_digit :: "char \<Rightarrow> bool" where
  "is_digit c = (c \<in> set ''0123456789'')"

definition digit_value :: "char \<Rightarrow> nat" where
  "digit_value c = of_char c - 48"

definition digits_value :: "string \<Rightarrow> nat" where
  "digits_value ds = foldl (\<lambda>acc c. 10 * acc + digit_value c) 0 ds"

text \<open>
  \<^verbatim>\<open>parseInt(s, 10)\<close>: leading white space is skipped, one sign is read, then the longest
  run of decimal digits; anything after it is ignored; no digit at all gives \<^verbatim>\<open>NaN\<close>.
\<close>

definition parseInt10 :: "string \<Rightarrow> jsnum" where
  "parseInt10 s =
     (let t = dropWhile is_space s;
          neg = (t \<noteq> [] \<and> hd t = CHR ''-'');
          u = (if t \<noteq> [] \<and> (hd t = CHR ''-'' \<or> hd t = CHR ''+'') then tl t else t);
          z = takeWhile is_digit u
      in if z = [] then NaN
         else Num ((if neg then - 1 else 1) * int (digits_value z)))"

text \<open>\<^verbatim>\<open>String(n)\<close> and the \<^verbatim>\<open>${n}\<close> of a template literal, for \<^verbatim>\<open>NaN\<close> and integers.\<close>

definition digit_char :: "nat \<Rightarrow> char" where
  "digit_char d = ''0123456789'' ! d"

fun string_of_nat :: "nat \<Rightarrow> string" where
  "string_of_nat n =
     (if n < 10 then [digit_char n] else string_of_nat (n div 10) @ [digit_char (n mod 10)])"

declare string_of_nat.simps [simp del]

definition String_num :: "jsnum \<Rightarrow> string" where
  "String_num x =
     (case x of
        NaN \<Rightarrow> ''NaN''
      | Num i \<Rightarrow> if i < 0 then CHR ''-'' # string_of_nat (nat (- i)) else string_of_nat (nat i))"

text \<open>
  Reading a property of an object literal falls back on \<^verbatim>\<open>Object.prototype\<close>: these names
  are defined for every plain object, each with a function or an object as its value.
\<close>

definition object_prototype_keys :: "string list" where
  "object_prototype_keys =
     [''constructor'', ''hasOwnProperty'', ''isPrototypeOf'', ''propertyIsEnumerable'',
      ''toLocaleString'', ''toString'', ''valueOf'', ''__proto__'',
      ''__defineGetter__'', ''__defineSetter__'', ''__lookupGetter__'', ''__lookupSetter__'']"

text \<open>
  What \<^verbatim>\<open>obj[key]\<close> gives on a plain object whose own properties are the map \<open>own\<close>:
  the own value, else the inherited member of that name, else \<^verbatim>\<open>undefined\<close>.
\<close>

datatype 'a jsprop = Undefined | Own 'a | Inherited string

definition get_property :: "(string \<rightharpoonup> 'a) \<Rightarrow> string \<Rightarrow> 'a jsprop" where
  "get_property own k =
     (case own k of
        Some v \<Rightarrow> Own v
      | None \<Rightarrow> if k \<in> set object_prototype_keys then Inherited k else Undefined)"

section \<open>The payloads of the API (\<^verbatim>\<open>External...\<close> types)\<close>

text \<open>
  Only the fields the reducer reads are kept. A field \<^verbatim>\<open>f\<close> is written with the initials
  of its type in front, since records of one theory share one name space.
\<close>

datatype VersionEntryType = Image | Directory | Text | Binary

record ExternalVersionEntry =
  xe_depth :: int
  xe_filename :: string
  xe_mime_category :: VersionEntryType
  xe_mimetype :: string
  xe_modified :: string
  xe_path :: string
  xe_sha256 :: string

text \<open>
  \<^verbatim>\<open>entries\<close> is an object keyed by node name; the list holds its properties in the
  order of \<^verbatim>\<open>Object.keys\<close>.
\<close>

record PartialExternalVersionFile =
  xf_created :: string
  xf_entries :: "(string \<times> ExternalVersionEntry) list"
  xf_id :: jsnum
  xf_selected_file :: string
  xf_size :: int

record ExternalVersionAddon =
  xa_icon_url :: string
  xa_id :: jsnum
  xa_name :: "(string \<times> string) list"
  xa_slug :: string

datatype ChangeType = Normal | Delete | Insert

record ExternalChange =
  xc_content :: string
  xc_new_line_number :: int
  xc_old_line_number :: int
  xc_type :: ChangeType

record ExternalHunk =
  xh_changes :: "ExternalChange list"
  xh_header :: string
  xh_new_lines :: int
  xh_new_start :: int
  xh_old_lines :: int
  xh_old_start :: int

record ExternalDiff =
  xd_hunks :: "ExternalHunk list"
  xd_mode :: string
  xd_new_ending_new_line :: bool
  xd_old_ending_new_line :: bool
  xd_old_path :: string
  xd_path :: string

record ExternalVersionFileWithContent = PartialExternalVersionFile +
  xf_content :: string

record ExternalVersionFileWithDiff = PartialExternalVersionFile +
  xf_diff :: "ExternalDiff list"

record 'f PartialExternalVersion =
  xv_addon :: ExternalVersionAddon
  xv_id :: jsnum
  xv_reviewed :: string
  xv_version :: string
  xv_file :: 'f

type_synonym ExternalVersionWithContent = "ExternalVersionFileWithContent PartialExternalVersion"
type_synonym ExternalVersionWithDiff = "ExternalVersionFileWithDiff PartialExternalVersion"

datatype Channel = unlisted | listed

record VersionsListItem =
  li_channel :: Channel
  li_id :: jsnum
  li_version :: string

section \<open>The internal types of the store\<close>

record InternalVersionFile =
  vf_content :: string
  vf_created :: string
  vf_id :: jsnum
  vf_size :: int

record VersionEntry =
  ve_depth :: int
  ve_filename :: string
  ve_mimeType :: string
  ve_modified :: string
  ve_path :: string
  ve_sha256 :: string
  ve_type :: VersionEntryType

record VersionAddon =
  va_iconUrl :: string
  va_id :: jsnum
  va_name :: "(string \<times> string) list"
  va_slug :: string

record Version =
  v_addon :: VersionAddon
  v_entries :: "VersionEntry list"
  v_id :: jsnum
  v_reviewed :: string
  v_selectedPath :: string
  v_version :: string

record VersionsMap =
  vm_listed :: "VersionsListItem list"
  vm_unlisted :: "VersionsListItem list"

text \<open>
  The objects \<^verbatim>\<open>createInternalDiffs\<close> builds for \<^verbatim>\<open>react-diff-view\<close>. The \<^verbatim>\<open>type\<close> of
  a diff is what a property read of \<^verbatim>\<open>GIT_STATUS_TO_TYPE\<close> returned: a string of the table
  or a member inherited from \<^verbatim>\<open>Object.prototype\<close>.
\<close>

record ChangeInfo =
  ci_content :: string
  ci_isDelete :: bool
  ci_isInsert :: bool
  ci_isNormal :: bool
  ci_lineNumber :: int
  ci_newLineNumber :: int
  ci_oldLineNumber :: int
  ci_type :: ChangeType

record HunkInfo =
  hi_changes :: "ChangeInfo list"
  hi_content :: string
  hi_isPlain :: bool
  hi_newLines :: int
  hi_newStart :: int
  hi_oldLines :: int
  hi_oldStart :: int

record DiffInfo =
  di_newRevision :: string
  di_oldRevision :: string
  di_hunks :: "HunkInfo list"
  di_type :: "string jsprop"
  di_newEndingNewLine :: bool
  di_oldEndingNewLine :: bool
  di_newMode :: string
  di_oldMode :: string
  di_newPath :: string
  di_oldPath :: string

record CompareInfo =
  cmp_diffs :: "DiffInfo list"
  cmp_mimeType :: string

type_synonym CompareInfoMap = "string \<rightharpoonup> CompareInfo"

text \<open>
  \<^verbatim>\<open>versionInfo[id]\<close> holds a whole \<^verbatim>\<open>Version\<close>, or, after \<^verbatim>\<open>updateSelectedPath\<close> for
  an id that was not loaded, the object \<^verbatim>\<open>{ selectedPath }\<close> that the spread of
  \<^verbatim>\<open>undefined\<close> leaves. In \<^verbatim>\<open>diffsByPath\<close> a key is absent (\<^verbatim>\<open>undefined\<close>, \<open>None\<close>), or
  holds \<^verbatim>\<open>null\<close> (\<open>Some None\<close>), or holds a mapping from paths (\<open>Some (Some m)\<close>).
\<close>

datatype StoredVersion = Whole Version | SelectedPathOnly string

record VersionsState =
  byAddonId :: "jsnum \<rightharpoonup> VersionsMap"
  diffsByPath :: "string \<rightharpoonup> CompareInfoMap option"
  versionInfo :: "jsnum \<rightharpoonup> StoredVersion"
  versionFiles :: "jsnum \<rightharpoonup> (string \<rightharpoonup> InternalVersionFile)"

definition initialState :: VersionsState where
  "initialState =
     \<lparr>byAddonId = Map.empty, diffsByPath = Map.empty,
      versionInfo = Map.empty, versionFiles = Map.empty\<rparr>"

section \<open>Normalising payloads\<close>

definition createInternalVersionFile :: "ExternalVersionFileWithContent \<Rightarrow> InternalVersionFile" where
  "createInternalVersionFile file =
     \<lparr>vf_content = xf_content file, vf_created = xf_created file,
      vf_id = xf_id file, vf_size = xf_size file\<rparr>"

definition createInternalVersionEntry :: "ExternalVersionEntry \<Rightarrow> VersionEntry" where
  "createInternalVersionEntry entry =
     \<lparr>ve_depth = xe_depth entry, ve_filename = xe_filename entry,
      ve_mimeType = xe_mimetype entry, ve_modified = xe_modified entry,
      ve_path = xe_path entry, ve_sha256 = xe_sha256 entry,
      ve_type = xe_mime_category entry\<rparr>"

definition createInternalVersionAddon :: "ExternalVersionAddon \<Rightarrow> VersionAddon" where
  "createInternalVersionAddon addon =
     \<lparr>va_iconUrl = xa_icon_url addon, va_id = xa_id addon,
      va_name = xa_name addon, va_slug = xa_slug addon\<rparr>"

text \<open>The argument is a version with content or a version with a diff: any extension of the file.\<close>

definition createInternalVersion ::
  "('a PartialExternalVersionFile_scheme) PartialExternalVersion \<Rightarrow> Version" where
  "createInternalVersion version =
     \<lparr>v_addon = createInternalVersionAddon (xv_addon version),
      v_entries = map (\<lambda>(nodeName, entry). createInternalVersionEntry entry)
                      (xf_entries (xv_file version)),
      v_id = xv_id version,
      v_reviewed = xv_reviewed version,
      v_selectedPath = xf_selected_file (xv_file version),
      v_version = xv_version version\<rparr>"

definition getVersionFiles :: "VersionsState \<Rightarrow> jsnum \<Rightarrow> (string \<rightharpoonup> InternalVersionFile) option" where
  "getVersionFiles versions versionId = versionFiles versions versionId"

definition getVersionInfo :: "VersionsState \<Rightarrow> jsnum \<Rightarrow> StoredVersion option" where
  "getVersionInfo versions versionId = versionInfo versions versionId"

definition createVersionsMap :: "VersionsListItem list \<Rightarrow> VersionsMap" where
  "createVersionsMap versions =
     \<lparr>vm_listed = filter (\<lambda>version. li_channel version = listed) versions,
      vm_unlisted = filter (\<lambda>version. li_channel version = unlisted) versions\<rparr>"

subsection \<open>Diffs\<close>

definition GIT_STATUS_TO_TYPE :: "string \<rightharpoonup> string" where
  "GIT_STATUS_TO_TYPE =
     [''A'' \<mapsto> ''add'', ''C'' \<mapsto> ''copy'', ''D'' \<mapsto> ''delete'',
      ''M'' \<mapsto> ''modify'', ''R'' \<mapsto> ''rename'']"

text \<open>
  \<^verbatim>\<open>a || b\<close> where \<open>a\<close> was read from a table of strings: \<^verbatim>\<open>undefined\<close> and the empty
  string are falsy, an inherited member is a function or an object and is truthy.
\<close>

fun truthy_string :: "string jsprop \<Rightarrow> bool" where
  "truthy_string Undefined = False"
| "truthy_string (Own s) = (s \<noteq> [])"
| "truthy_string (Inherited k) = True"

definition js_or :: "string jsprop \<Rightarrow> string jsprop \<Rightarrow> string jsprop" where
  "js_or a b = (if truthy_string a then a else b)"

text \<open>The three anonymous functions of \<^verbatim>\<open>createInternalDiffs\<close>, innermost first.\<close>

definition createInternalChange :: "ExternalChange \<Rightarrow> ChangeInfo" where
  "createInternalChange change =
     \<lparr>ci_content = xc_content change,
      ci_isDelete = (xc_type change = Delete),
      ci_isInsert = (xc_type change = Insert),
      ci_isNormal = (xc_type change = Normal),
      ci_lineNumber =
        (if xc_type change = Insert then xc_new_line_number change
         else xc_old_line_number change),
      ci_newLineNumber = xc_new_line_number change,
      ci_oldLineNumber = xc_old_line_number change,
      ci_type = xc_type change\<rparr>"

definition createInternalHunk :: "ExternalHunk \<Rightarrow> HunkInfo" where
  "createInternalHunk hunk =
     \<lparr>hi_changes = map createInternalChange (xh_changes hunk),
      hi_content = xh_header hunk,
      hi_isPlain = False,
      hi_newLines = xh_new_lines hunk,
      hi_newStart = xh_new_start hunk,
      hi_oldLines = xh_old_lines hunk,
      hi_oldStart = xh_old_start hunk\<rparr>"

definition createInternalDiff :: "jsnum \<Rightarrow> jsnum \<Rightarrow> ExternalDiff \<Rightarrow> DiffInfo" where
  "createInternalDiff baseVersionId headVersionId diff =
     \<lparr>di_newRevision = String_num headVersionId,
      di_oldRevision = String_num baseVersionId,
      di_hunks = map createInternalHunk (xd_hunks diff),
      di_type = js_or (get_property GIT_STATUS_TO_TYPE (xd_mode diff))
                      (get_property GIT_STATUS_TO_TYPE ''M''),
      di_newEndingNewLine = xd_new_ending_new_line diff,
      di_oldEndingNewLine = xd_old_ending_new_line diff,
      di_newMode = xd_mode diff,
      di_oldMode = xd_mode diff,
      di_newPath = xd_path diff,
      di_oldPath = xd_old_path diff\<rparr>"

definition createInternalDiffs :: "jsnum \<Rightarrow> jsnum \<Rightarrow> ExternalVersionWithDiff \<Rightarrow> DiffInfo list" where
  "createInternalDiffs baseVersionId headVersionId version =
     map (createInternalDiff baseVersionId headVersionId) (xf_diff (xv_file version))"

definition getDiffsKey :: "jsnum \<Rightarrow> jsnum \<Rightarrow> jsnum \<Rightarrow> string" where
  "getDiffsKey addonId baseVersionId headVersionId =
     String_num addonId @ ''/'' @ String_num baseVersionId @ ''/'' @ String_num headVersionId"

definition getCompareInfoMap ::
  "VersionsState \<Rightarrow> jsnum \<Rightarrow> jsnum \<Rightarrow> jsnum \<Rightarrow> CompareInfoMap option option" where
  "getCompareInfoMap versionsState addonId baseVersionId headVersionId =
     diffsByPath versionsState (getDiffsKey addonId baseVersionId headVersionId)"

section \<open>The reducer\<close>

datatype action =
    loadVersionFile string ExternalVersionWithContent
  | loadVersionInfo "ExternalVersionWithContent + ExternalVersionWithDiff"
  | updateSelectedPath string jsnum
  | loadVersionsList jsnum "VersionsListItem list"
  | beginFetchDiff jsnum jsnum jsnum
  | abortFetchDiff jsnum jsnum jsnum
  | loadDiff jsnum jsnum jsnum ExternalVersionWithDiff
  | otherAction string

text \<open>
  Reading a property of \<^verbatim>\<open>undefined\<close>, as the destructuring in the \<^verbatim>\<open>loadDiff\<close> case does
  when the head version is not in the store, throws a \<^verbatim>\<open>TypeError\<close>.
\<close>

datatype error = TypeError

text \<open>The spread \<^verbatim>\<open>{...x}\<close> of \<^verbatim>\<open>undefined\<close> or \<^verbatim>\<open>null\<close> copies nothing.\<close>

definition spread_files ::
  "(string \<rightharpoonup> InternalVersionFile) option \<Rightarrow> (string \<rightharpoonup> InternalVersionFile)" where
  "spread_files x = (case x of None \<Rightarrow> Map.empty | Some m \<Rightarrow> m)"

definition spread_diffs :: "CompareInfoMap option option \<Rightarrow> CompareInfoMap" where
  "spread_diffs x = (case x of Some (Some m) \<Rightarrow> m | _ \<Rightarrow> Map.empty)"

definition spread_selectedPath :: "StoredVersion option \<Rightarrow> string \<Rightarrow> StoredVersion" where
  "spread_selectedPath x selectedPath =
     (case x of
        Some (Whole v) \<Rightarrow> Whole (v\<lparr>v_selectedPath := selectedPath\<rparr>)
      | _ \<Rightarrow> SelectedPathOnly selectedPath)"

text \<open>
  The reducer, case by case in the order of the source. The state is always given: the
  default \<^verbatim>\<open>state = initialState\<close> serves the store's first call only.
\<close>

fun reducer :: "VersionsState \<Rightarrow> action \<Rightarrow> error + VersionsState" where
  "reducer state (loadVersionInfo version) =
     Inr (state\<lparr>versionInfo :=
       (versionInfo state)
         (case_sum xv_id xv_id version \<mapsto>
            Whole (case_sum createInternalVersion createInternalVersion version))\<rparr>)"
| "reducer state (loadVersionFile path version) =
     Inr (state\<lparr>versionFiles :=
       (versionFiles state)
         (xv_id version \<mapsto>
            (spread_files (versionFiles state (xv_id version)))
              (path \<mapsto> createInternalVersionFile (xv_file version)))\<rparr>)"
| "reducer state (updateSelectedPath selectedPath versionId) =
     Inr (state\<lparr>versionInfo :=
       (versionInfo state)
         (versionId \<mapsto> spread_selectedPath (versionInfo state versionId) selectedPath)\<rparr>)"
| "reducer state (loadVersionsList addonId versions) =
     Inr (state\<lparr>byAddonId := (byAddonId state)(addonId \<mapsto> createVersionsMap versions)\<rparr>)"
| "reducer state (beginFetchDiff addonId baseVersionId headVersionId) =
     Inr (state\<lparr>diffsByPath :=
       (diffsByPath state)(getDiffsKey addonId baseVersionId headVersionId \<mapsto> Some Map.empty)\<rparr>)"
| "reducer state (abortFetchDiff addonId baseVersionId headVersionId) =
     Inr (state\<lparr>diffsByPath :=
       (diffsByPath state)(getDiffsKey addonId baseVersionId headVersionId \<mapsto> None)\<rparr>)"
| "reducer state (loadDiff addonId baseVersionId headVersionId version) =
     (case getVersionInfo state headVersionId of
        None \<Rightarrow> Inl TypeError
      | Some (SelectedPathOnly selectedPath) \<Rightarrow> Inl TypeError
      | Some (Whole info) \<Rightarrow>
          (case find (\<lambda>e. ve_path e = v_selectedPath info) (v_entries info) of
             None \<Rightarrow> Inr state
           | Some entry \<Rightarrow>
               Inr (state\<lparr>diffsByPath :=
                 (diffsByPath state)
                   (getDiffsKey addonId baseVersionId headVersionId \<mapsto>
                      Some ((spread_diffs
                               (diffsByPath state
                                  (getDiffsKey addonId baseVersionId headVersionId)))
                              (v_selectedPath info \<mapsto>
                                 \<lparr>cmp_diffs =
                                    createInternalDiffs baseVersionId headVersionId version,
                                  cmp_mimeType = ve_mimeType entry\<rparr>)))\<rparr>)))"
| "reducer state (otherAction name) = Inr state"

section \<open>The thunk \<^verbatim>\<open>fetchDiff\<close>\<close>

text \<open>
  The thunk is an async function. Dispatching it runs it up to \<^verbatim>\<open>await _getDiff(...)\<close>: it
  dispatches \<^verbatim>\<open>beginFetchDiff\<close> and calls the API client. There it is suspended, and nobody
  waits for it. The rest runs when the answer of the API client arrives, on the store as it
  is by then: whatever was dispatched in between has taken effect. The two parts are
  modelled apart, and the answer is a step of its own. The \<^verbatim>\<open>apiState\<close> the API client is
  also handed comes from another reducer and is left out of the request.
\<close>

record FetchDiffParams =
  fp_addonId :: jsnum
  fp_baseVersionId :: jsnum
  fp_headVersionId :: jsnum
  fp_path :: "string option"

record GetDiffRequest =
  gd_addonId :: jsnum
  gd_baseVersionId :: jsnum
  gd_headVersionId :: jsnum
  gd_path :: "string option"

datatype ApiResponse = ErrorResponse string | DiffResponse ExternalVersionWithDiff

text \<open>
  What happens in a session, in order: the actions dispatched to the store, an error thrown
  by the reducer for the action just dispatched, the calls of the API client, of
  \<^verbatim>\<open>history.push\<close> and of \<^verbatim>\<open>_log.error\<close>.
\<close>

datatype event =
    Dispatched action
  | Thrown error
  | GetDiffCalled GetDiffRequest
  | HistoryPushed string
  | ErrorLogged string

text \<open>
  A session holds the events so far, the store, and the thunks of \<^verbatim>\<open>fetchDiff\<close> that are
  suspended at their \<^verbatim>\<open>await\<close>, the oldest first.
\<close>

record session =
  ss_events :: "event list"
  ss_store :: VersionsState
  ss_pending :: "FetchDiffParams list"

definition session_of :: "VersionsState \<Rightarrow> session" where
  "session_of state = \<lparr>ss_events = [], ss_store = state, ss_pending = []\<rparr>"

definition emit :: "event \<Rightarrow> session \<Rightarrow> session" where
  "emit ev s = s\<lparr>ss_events := ss_events s @ [ev]\<rparr>"

text \<open>
  A dispatch either returns, and the store holds what the reducer returned, or the reducer
  throws: the store keeps its state and the function that dispatched ends there.
\<close>

definition dispatched :: "action \<Rightarrow> VersionsState \<Rightarrow> session \<Rightarrow> session" where
  "dispatched a state' s = s\<lparr>ss_events := ss_events s @ [Dispatched a], ss_store := state'\<rparr>"

definition thrown :: "action \<Rightarrow> error \<Rightarrow> session \<Rightarrow> session" where
  "thrown a e s = s\<lparr>ss_events := ss_events s @ [Dispatched a, Thrown e]\<rparr>"

text \<open>A dispatch that is the last statement of its function.\<close>

definition dispatch :: "action \<Rightarrow> session \<Rightarrow> session" where
  "dispatch a s =
     (case reducer (ss_store s) a of
        Inl e \<Rightarrow> thrown a e s
      | Inr state' \<Rightarrow> dispatched a state' s)"

text \<open>The argument of \<^verbatim>\<open>_getDiff\<close>.\<close>

definition fetchDiff_request :: "FetchDiffParams \<Rightarrow> GetDiffRequest" where
  "fetchDiff_request params =
     \<lparr>gd_addonId = fp_addonId params, gd_baseVersionId = fp_baseVersionId params,
      gd_headVersionId = Num 123, gd_path = fp_path params\<rparr>"

text \<open>The thunk up to its \<^verbatim>\<open>await\<close>.\<close>

definition fetchDiff :: "FetchDiffParams \<Rightarrow> session \<Rightarrow> session" where
  "fetchDiff params s =
     (let addonId = fp_addonId params;
          baseVersionId = fp_baseVersionId params;
          headVersionId = fp_headVersionId params
      in case reducer (ss_store s) (beginFetchDiff addonId baseVersionId headVersionId) of
           Inl e \<Rightarrow> thrown (beginFetchDiff addonId baseVersionId headVersionId) e s
         | Inr state' \<Rightarrow>
             (emit (GetDiffCalled (fetchDiff_request params))
                (dispatched (beginFetchDiff addonId baseVersionId headVersionId) state' s))
             \<lparr>ss_pending := ss_pending s @ [params]\<rparr>)"

text \<open>The thunk from its \<^verbatim>\<open>await\<close> on, given the answer of the API client.\<close>

definition fetchDiff_resumed :: "FetchDiffParams \<Rightarrow> ApiResponse \<Rightarrow> session \<Rightarrow> session" where
  "fetchDiff_resumed params response s =
     (let addonId = fp_addonId params;
          baseVersionId = fp_baseVersionId params;
          headVersionId = fp_headVersionId params
      in case response of
           ErrorResponse err \<Rightarrow>
             dispatch (abortFetchDiff addonId baseVersionId headVersionId)
               (emit (ErrorLogged (''TODO: handle this error response: '' @ err)) s)
         | DiffResponse version \<Rightarrow>
             (case reducer (ss_store s) (loadVersionInfo (Inr version)) of
                Inl e \<Rightarrow> thrown (loadVersionInfo (Inr version)) e s
              | Inr state' \<Rightarrow>
                  dispatch (loadDiff addonId baseVersionId headVersionId version)
                    (dispatched (loadVersionInfo (Inr version)) state' s)))"

text \<open>
  The answer to the request of the \<open>i\<close>-th suspended thunk arrives: that thunk runs to its
  end. Answers may arrive in any order and at any time after the request.
\<close>

definition answer :: "nat \<Rightarrow> ApiResponse \<Rightarrow> session \<Rightarrow> session" where
  "answer i response s =
     (if i < length (ss_pending s)
      then fetchDiff_resumed (ss_pending s ! i) response
             (s\<lparr>ss_pending := take i (ss_pending s) @ drop (Suc i) (ss_pending s)\<rparr>)
      else s)"

section \<open>The Compare page\<close>

record RouteParams =
  rp_addonId :: string
  rp_baseVersionId :: string
  rp_headVersionId :: string
  rp_lang :: string

text \<open>What the component asks for: a redirect, a plain action, or the thunk of \<^verbatim>\<open>_fetchDiff\<close>.\<close>

datatype effect =
    history_push string
  | dispatch_action action
  | dispatch_fetchDiff FetchDiffParams

definition loadData :: "RouteParams \<Rightarrow> RouteParams option \<Rightarrow> effect list" where
  "loadData params prevProps =
     (if (case prevProps of
            None \<Rightarrow> True
          | Some prev \<Rightarrow>
              rp_addonId params \<noteq> rp_addonId prev \<or>
              rp_baseVersionId params \<noteq> rp_baseVersionId prev \<or>
              rp_headVersionId params \<noteq> rp_headVersionId prev)
      then [dispatch_fetchDiff
              \<lparr>fp_addonId = parseInt10 (rp_addonId params),
               fp_baseVersionId = parseInt10 (rp_baseVersionId params),
               fp_headVersionId = parseInt10 (rp_headVersionId params),
               fp_path = None\<rparr>]
      else [])"

definition componentDidMount :: "RouteParams \<Rightarrow> effect list" where
  "componentDidMount params =
     (let oldVersionId = parseInt10 (rp_baseVersionId params);
          newVersionId = parseInt10 (rp_headVersionId params)
      in if js_gt oldVersionId newVersionId
         then [history_push
                 (''/'' @ rp_lang params @ ''/compare/'' @ rp_addonId params @ ''/versions/'' @
                  rp_headVersionId params @ ''...'' @ rp_baseVersionId params @ ''/'')]
         else loadData params None)"

definition componentDidUpdate :: "RouteParams \<Rightarrow> RouteParams \<Rightarrow> effect list" where
  "componentDidUpdate params prevProps = loadData params (Some prevProps)"

text \<open>
  \<^verbatim>\<open>!compareInfoMap || !compareInfoMap[path]\<close>: \<^verbatim>\<open>undefined\<close> and \<^verbatim>\<open>null\<close> are falsy; on a
  mapping the property read finds an own entry, an inherited member (both truthy) or nothing.
\<close>

definition diff_missing :: "CompareInfoMap option option \<Rightarrow> string \<Rightarrow> bool" where
  "diff_missing compareInfoMap path =
     (case compareInfoMap of
        Some (Some m) \<Rightarrow> get_property m path = Undefined
      | _ \<Rightarrow> True)"

definition onSelectFile :: "RouteParams \<Rightarrow> CompareInfoMap option option \<Rightarrow> string \<Rightarrow> effect list" where
  "onSelectFile params compareInfoMap path =
     dispatch_action (updateSelectedPath path (parseInt10 (rp_headVersionId params))) #
     (if diff_missing compareInfoMap path
      then [dispatch_fetchDiff
              \<lparr>fp_addonId = parseInt10 (rp_addonId params),
               fp_baseVersionId = parseInt10 (rp_baseVersionId params),
               fp_headVersionId = parseInt10 (rp_headVersionId params),
               fp_path = Some path\<rparr>]
      else [])"

text \<open>\<^verbatim>\<open>mapStateToProps\<close>: the \<^verbatim>\<open>compareInfoMap\<close> the component sees.\<close>

definition mapStateToProps_compareInfoMap ::
  "VersionsState \<Rightarrow> RouteParams \<Rightarrow> CompareInfoMap option option" where
  "mapStateToProps_compareInfoMap state params =
     getCompareInfoMap state (parseInt10 (rp_addonId params))
       (parseInt10 (rp_baseVersionId params)) (parseInt10 (rp_headVersionId params))"

subsection \<open>Running the component against the store\<close>

text \<open>
  The effects of a lifecycle method or a handler, carried out in order. They are synchronous:
  a thunk is run up to its \<^verbatim>\<open>await\<close> and left suspended. A reducer that throws ends the
  method.
\<close>

fun perform :: "effect list \<Rightarrow> session \<Rightarrow> session" where
  "perform [] s = s"
| "perform (history_push url # effs) s = perform effs (emit (HistoryPushed url) s)"
| "perform (dispatch_action a # effs) s =
     (case reducer (ss_store s) a of
        Inl e \<Rightarrow> thrown a e s
      | Inr state' \<Rightarrow> perform effs (dispatched a state' s))"
| "perform (dispatch_fetchDiff params # effs) s = perform effs (fetchDiff params s)"

definition mount :: "RouteParams \<Rightarrow> session \<Rightarrow> session" where
  "mount params s = perform (componentDidMount params) s"

definition update :: "RouteParams \<Rightarrow> RouteParams \<Rightarrow> session \<Rightarrow> session" where
  "update params prevProps s = perform (componentDidUpdate params prevProps) s"

definition selectFile :: "RouteParams \<Rightarrow> string \<Rightarrow> session \<Rightarrow> session" where
  "selectFile params path s =
     perform (onSelectFile params (mapStateToProps_compareInfoMap (ss_store s) params) path) s"

section \<open>Sequences of actions\<close>

text \<open>The store after a list of actions; the first action that throws ends the run.\<close>

fun reduce_all :: "VersionsState \<Rightarrow> action list \<Rightarrow> error + VersionsState" where
  "reduce_all state [] = Inr state"
| "reduce_all state (a # as) =
     (case reducer state a of Inl e \<Rightarrow> Inl e | Inr state' \<Rightarrow> reduce_all state' as)"

text \<open>The comparison an action requests, aborts or loads a diff for, if any.\<close>

fun comparison_of :: "action \<Rightarrow> (jsnum \<times> jsnum \<times> jsnum) option" where
  "comparison_of (beginFetchDiff addonId baseVersionId headVersionId) =
     Some (addonId, baseVersionId, headVersionId)"
| "comparison_of (abortFetchDiff addonId baseVersionId headVersionId) =
     Some (addonId, baseVersionId, headVersionId)"
| "comparison_of (loadDiff addonId baseVersionId headVersionId version) =
     Some (addonId, baseVersionId, headVersionId)"
| "comparison_of _ = None"

section \<open>Sample data\<close>

text \<open>A version with one entry, \<^verbatim>\<open>manifest.json\<close>, and a diff of one hunk.\<close>

definition sample_entry :: "string \<Rightarrow> ExternalVersionEntry" where
  "sample_entry p =
     \<lparr>xe_depth = 0, xe_filename = p, xe_mime_category = Text,
      xe_mimetype = ''application/json'', xe_modified = ''2019-03-01T10:00:00Z'',
      xe_path = p, xe_sha256 = ''abc''\<rparr>"

definition sample_changes :: "ExternalChange list" where
  "sample_changes =
     [\<lparr>xc_content = ''+ new'', xc_new_line_number = 5, xc_old_line_number = 0,
       xc_type = Insert\<rparr>,
      \<lparr>xc_content = ''- old'', xc_new_line_number = 0, xc_old_line_number = 7,
       xc_type = Delete\<rparr>]"

definition sample_diff :: "string \<Rightarrow> ExternalDiff" where
  "sample_diff m =
     \<lparr>xd_hunks =
        [\<lparr>xh_changes = sample_changes, xh_header = ''@@ -7,1 +5,1 @@'',
          xh_new_lines = 1, xh_new_start = 5, xh_old_lines = 1, xh_old_start = 7\<rparr>],
      xd_mode = m, xd_new_ending_new_line = True, xd_old_ending_new_line = True,
      xd_old_path = ''manifest.json'', xd_path = ''manifest.json''\<rparr>"

definition sample_addon :: ExternalVersionAddon where
  "sample_addon =
     \<lparr>xa_icon_url = ''icon.png'', xa_id = Num 9999, xa_name = [(''en-US'', ''addon'')],
      xa_slug = ''addon''\<rparr>"

definition sample_version_with_diff :: "jsnum \<Rightarrow> string list \<Rightarrow> string \<Rightarrow> ExternalVersionWithDiff" where
  "sample_version_with_diff vid paths selected =
     \<lparr>xv_addon = sample_addon, xv_id = vid, xv_reviewed = ''2019-03-01'',
      xv_version = ''1.0'',
      xv_file =
        \<lparr>xf_created = ''2019-03-01'', xf_entries = map (\<lambda>p. (p, sample_entry p)) paths,
         xf_id = Num 1, xf_selected_file = selected, xf_size = 10,
         xf_diff = [sample_diff ''M'']\<rparr>\<rparr>"

definition sample_version_with_content :: "jsnum \<Rightarrow> ExternalVersionWithContent" where
  "sample_version_with_content vid =
     \<lparr>xv_addon = sample_addon, xv_id = vid, xv_reviewed = ''2019-03-01'',
      xv_version = ''1.0'',
      xv_file =
        \<lparr>xf_created = ''2019-03-01'',
         xf_entries = [(''manifest.json'', sample_entry ''manifest.json'')],
         xf_id = Num 1, xf_selected_file = ''manifest.json'', xf_size = 10,
         xf_content = ''{}''\<rparr>\<rparr>"

definition sample_params :: "string \<Rightarrow> string \<Rightarrow> string \<Rightarrow> string \<Rightarrow> RouteParams" where
  "sample_params lang addonId baseVersionId headVersionId =
     \<lparr>rp_addonId = addonId, rp_baseVersionId = baseVersionId,
      rp_headVersionId = headVersionId, rp_lang = lang\<rparr>"

definition sample_normal_change :: ExternalChange where
  "sample_normal_change =
     \<lparr>xc_content = ''  same'', xc_new_line_number = 5, xc_old_line_number = 3,
      xc_type = Normal\<rparr>"

definition sample_info :: "string list \<Rightarrow> string \<Rightarrow> Version" where
  "sample_info paths selected =
     createInternalVersion (sample_version_with_diff (Num 2) paths selected)"

definition sample_compare_info :: "string \<Rightarrow> CompareInfo" where
  "sample_compare_info mime = \<lparr>cmp_diffs = [], cmp_mimeType = mime\<rparr>"

definition state_with_A_B :: VersionsState where
  "state_with_A_B =
     \<lparr>byAddonId = Map.empty,
      diffsByPath =
        [''9999/1/2'' \<mapsto>
           Some [''A'' \<mapsto> sample_compare_info ''text/a'', ''B'' \<mapsto> sample_compare_info ''text/b'']],
      versionInfo = [Num 2 \<mapsto> Whole (sample_info [''A'', ''B'', ''C''] ''C'')],
      versionFiles = Map.empty\<rparr>"

text \<open>A store whose version 2 has the file \<^verbatim>\<open>A\<close> only, with \<^verbatim>\<open>B\<close> selected.\<close>

definition state_with_stale_selection :: VersionsState where
  "state_with_stale_selection =
     \<lparr>byAddonId = Map.empty, diffsByPath = Map.empty,
      versionInfo = [Num 2 \<mapsto> Whole (sample_info [''A''] ''B'')],
      versionFiles = Map.empty\<rparr>"

text \<open>
  An API client that answers every request with version 2 of three files, the requested
  path selected (\<^verbatim>\<open>A\<close> when none is requested).
\<close>

definition getDiff_sample :: "GetDiffRequest \<Rightarrow> ApiResponse" where
  "getDiff_sample request =
     DiffResponse (sample_version_with_diff (Num 2) [''A'', ''B'', ''C'']
       (case gd_path request of None \<Rightarrow> ''A'' | Some p \<Rightarrow> p))"

definition sample_loaded_info :: "string \<Rightarrow> CompareInfo" where
  "sample_loaded_info p =
     \<lparr>cmp_diffs = createInternalDiffs (Num 1) (Num 2)
                    (sample_version_with_diff (Num 2) [''A'', ''B'', ''C''] p),
      cmp_mimeType = ''application/json''\<rparr>"

text \<open>The store after the page was mounted on \<open>(9999, 1, 2)\<close> and the diff of \<^verbatim>\<open>A\<close> arrived.\<close>

definition state_after_load :: VersionsState where
  "state_after_load =
     \<lparr>byAddonId = Map.empty,
      diffsByPath = [''9999/1/2'' \<mapsto> Some [''A'' \<mapsto> sample_loaded_info ''A'']],
      versionInfo = [Num 2 \<mapsto> Whole (sample_info [''A'', ''B'', ''C''] ''A'')],
      versionFiles = Map.empty\<rparr>"

definition sample_version_with_mode :: "string \<Rightarrow> ExternalVersionWithDiff" where
  "sample_version_with_mode m =
     \<lparr>xv_addon = sample_addon, xv_id = Num 2, xv_reviewed = ''2019-03-01'',
      xv_version = ''1.0'',
      xv_file =
        \<lparr>xf_created = ''2019-03-01'',
         xf_entries = [(''manifest.json'', sample_entry ''manifest.json'')],
         xf_id = Num 1, xf_selected_file = ''manifest.json'', xf_size = 10,
         xf_diff = [sample_diff m]\<rparr>\<rparr>"

definition state_with_version :: VersionsState where
  "state_with_version =
     \<lparr>byAddonId = Map.empty, diffsByPath = Map.empty,
      versionInfo = [Num 2 \<mapsto> Whole (sample_info [''manifest.json''] ''manifest.json'')],
      versionFiles = Map.empty\<rparr>"

text \<open>The store after \<^verbatim>\<open>B\<close> was then selected and its diff arrived.\<close>

definition state_after_select_B :: VersionsState where
  "state_after_select_B =
     \<lparr>byAddonId = Map.empty,
      diffsByPath = [''9999/1/2'' \<mapsto> Some [''B'' \<mapsto> sample_loaded_info ''B'']],
      versionInfo = [Num 2 \<mapsto> Whole (sample_info [''A'', ''B'', ''C''] ''B'')],
      versionFiles = Map.empty\<rparr>"

section \<open>Evaluating numbers, strings and keys\<close>

lemma parseInt10_9999: "parseInt10 ''9999'' = Num 9999"
  by (simp add: parseInt10_def is_space_def is_digit_def digits_value_def digit_value_def)

lemma parseInt10_123456: "parseInt10 ''123456'' = Num 123456"
  by (simp add: parseInt10_def is_space_def is_digit_def digits_value_def digit_value_def)

lemma parseInt10_1: "parseInt10 ''1'' = Num 1"
  by (simp add: parseInt10_def is_space_def is_digit_def digits_value_def digit_value_def)

lemma parseInt10_2: "parseInt10 ''2'' = Num 2"
  by (simp add: parseInt10_def is_space_def is_digit_def digits_value_def digit_value_def)

lemma getDiffsKey_9999_1_2: "getDiffsKey (Num 9999) (Num 1) (Num 2) = ''9999/1/2''"
  by (simp add: getDiffsKey_def String_num_def string_of_nat.simps digit_char_def)

subsection \<open>The key of a comparison determines the comparison\<close>

lemma digit_cases: "d < 10 \<Longrightarrow> d \<in> {0, 1, 2, 3, 4, 5, 6, 7, 8, 9::nat}"
  by auto

lemma digit_value_digit_char: "d < 10 \<Longrightarrow> digit_value (digit_char d) = d"
  using digit_cases [of d] by (auto simp: digit_value_def digit_char_def)

lemma digit_char_is_digit: "d < 10 \<Longrightarrow> is_digit (digit_char d)"
  using digit_cases [of d] by (auto simp: is_digit_def digit_char_def)

lemma digits_value_snoc: "digits_value (ds @ [c]) = 10 * digits_value ds + digit_value c"
  by (simp add: digits_value_def)

lemma digits_value_string_of_nat: "digits_value (string_of_nat n) = n"
proof (induction n rule: string_of_nat.induct)
  case (1 n)
  show ?case
  proof (cases "n < 10")
    case True
    then show ?thesis
      by (simp add: string_of_nat.simps [of n] digits_value_def digit_value_digit_char)
  next
    case False
    with 1 show ?thesis
      by (simp add: string_of_nat.simps [of n] digits_value_snoc digit_value_digit_char)
  qed
qed

lemma string_of_nat_digits: "c \<in> set (string_of_nat n) \<Longrightarrow> is_digit c"
proof (induction n rule: string_of_nat.induct)
  case (1 n)
  show ?case
  proof (cases "n < 10")
    case True
    with 1(2) show ?thesis
      by (simp add: string_of_nat.simps [of n] digit_char_is_digit)
  next
    case False
    with 1 show ?thesis
      by (auto simp: string_of_nat.simps [of n] digit_char_is_digit)
  qed
qed

lemma string_of_nat_nonempty: "string_of_nat n \<noteq> []"
  by (subst string_of_nat.simps) simp

lemma string_of_nat_inj: "string_of_nat m = string_of_nat n \<Longrightarrow> m = n"
  by (metis digits_value_string_of_nat)

lemma hd_string_of_nat_digit: "is_digit (hd (string_of_nat n))"
  using string_of_nat_digits [of "hd (string_of_nat n)" n] string_of_nat_nonempty [of n]
  by simp

lemma String_num_Num_not_NaN: "String_num (Num j) \<noteq> ''NaN''"
proof
  assume eq: "String_num (Num j) = ''NaN''"
  have d: "\<not> is_digit CHR ''N''" by (simp add: is_digit_def)
  show False
  proof (cases "j < 0")
    case True
    with eq show False by (simp add: String_num_def)
  next
    case False
    with eq have "string_of_nat (nat j) = ''NaN''" by (simp add: String_num_def)
    then have "hd (string_of_nat (nat j)) = CHR ''N''" by simp
    with hd_string_of_nat_digit [of "nat j"] d show False by simp
  qed
qed

lemma String_num_inj: "String_num x = String_num y \<Longrightarrow> x = y"
proof (cases x; cases y)
  fix i j assume xy: "x = Num i" "y = Num j" and eq: "String_num x = String_num y"
  have d: "\<not> is_digit CHR ''-''" by (simp add: is_digit_def)
  show "x = y"
  proof (cases "i < 0"; cases "j < 0")
    assume "i < 0" "j < 0"
    with eq xy have "string_of_nat (nat (- i)) = string_of_nat (nat (- j))"
      by (simp add: String_num_def)
    then have "nat (- i) = nat (- j)" by (rule string_of_nat_inj)
    with \<open>i < 0\<close> \<open>j < 0\<close> xy show ?thesis by simp
  next
    assume "i < 0" "\<not> j < 0"
    with eq xy have "CHR ''-'' # string_of_nat (nat (- i)) = string_of_nat (nat j)"
      by (simp add: String_num_def)
    then have "hd (string_of_nat (nat j)) = CHR ''-''" by (metis list.sel(1))
    with hd_string_of_nat_digit [of "nat j"] d show ?thesis by simp
  next
    assume "\<not> i < 0" "j < 0"
    with eq xy have "string_of_nat (nat i) = CHR ''-'' # string_of_nat (nat (- j))"
      by (simp add: String_num_def)
    then have "hd (string_of_nat (nat i)) = CHR ''-''" by (metis list.sel(1))
    with hd_string_of_nat_digit [of "nat i"] d show ?thesis by simp
  next
    assume "\<not> i < 0" "\<not> j < 0"
    with eq xy have "string_of_nat (nat i) = string_of_nat (nat j)"
      by (simp add: String_num_def)
    then have "nat i = nat j" by (rule string_of_nat_inj)
    with \<open>\<not> i < 0\<close> \<open>\<not> j < 0\<close> xy show ?thesis by simp
  qed
next
  fix j assume "x = NaN" "y = Num j" "String_num x = String_num y"
  with String_num_Num_not_NaN [of j] show "x = y" by (simp add: String_num_def)
next
  fix i assume "x = Num i" "y = NaN" "String_num x = String_num y"
  with String_num_Num_not_NaN [of i] show "x = y" by (simp add: String_num_def)
qed simp

lemma String_num_no_slash: "CHR ''/'' \<notin> set (String_num x)"
proof (cases x)
  case NaN
  then show ?thesis by (simp add: String_num_def)
next
  case (Num i)
  have "\<not> is_digit CHR ''/''" by (simp add: is_digit_def)
  then have "CHR ''/'' \<notin> set (string_of_nat n)" for n
    using string_of_nat_digits by blast
  with Num show ?thesis by (simp add: String_num_def)
qed

lemma split_at_first:
  "x \<notin> set xs \<Longrightarrow> x \<notin> set xs' \<Longrightarrow> xs @ x # ys = xs' @ x # ys' \<Longrightarrow> xs = xs' \<and> ys = ys'"
proof (induction xs arbitrary: xs')
  case Nil
  then show ?case by (cases xs') auto
next
  case (Cons a xs)
  then show ?case by (cases xs') auto
qed

lemma getDiffsKey_inj:
  assumes "getDiffsKey a b h = getDiffsKey a' b' h'"
  shows "a = a' \<and> b = b' \<and> h = h'"
proof -
  from assms have
    "String_num a @ CHR ''/'' # (String_num b @ CHR ''/'' # String_num h) =
     String_num a' @ CHR ''/'' # (String_num b' @ CHR ''/'' # String_num h')"
    by (simp add: getDiffsKey_def)
  then have 1: "String_num a = String_num a'"
    and 2: "String_num b @ CHR ''/'' # String_num h = String_num b' @ CHR ''/'' # String_num h'"
    using split_at_first [OF String_num_no_slash String_num_no_slash] by blast+
  from 2 have "String_num b = String_num b'" "String_num h = String_num h'"
    using split_at_first [OF String_num_no_slash String_num_no_slash] by blast+
  with 1 show ?thesis by (simp add: String_num_inj)
qed

section \<open>Normalising a diff\<close>

text \<open>
  C3 (as the code has it). In the output of \<^verbatim>\<open>createInternalDiffs\<close>, position by position,
  the \<^verbatim>\<open>lineNumber\<close> of a change is its new line number when the change is an insert and
  its old line number otherwise, that is for a delete and for a normal line alike. On the
  changes \<^verbatim>\<open>[{insert, new 5, old 0}, {delete, new 0, old 7}]\<close> the line numbers are 5 and 7.
\<close>

theorem C3_lineNumber_insert_new_else_old:
  "map (\<lambda>d. map (\<lambda>h. map ci_lineNumber (hi_changes h)) (di_hunks d))
       (createInternalDiffs baseVersionId headVersionId version) =
   map (\<lambda>d. map (\<lambda>h. map (\<lambda>c. if xc_type c = Insert then xc_new_line_number c
                                 else xc_old_line_number c) (xh_changes h)) (xd_hunks d))
       (xf_diff (xv_file version))
   \<and> map ci_lineNumber (map createInternalChange sample_changes) = [5, 7]"
  by (simp add: createInternalDiffs_def createInternalDiff_def createInternalHunk_def
      createInternalChange_def sample_changes_def comp_def)

text \<open>
  C3, the claim as stated fails: a normal line with new line number 5 and old line number 3
  is given the line number 3, not its new line number.
\<close>

theorem C3_normal_line_counterexample:
  "xc_type sample_normal_change = Normal \<and>
   xc_new_line_number sample_normal_change = 5 \<and>
   ci_lineNumber (createInternalChange sample_normal_change) = 3"
  by (simp add: createInternalChange_def sample_normal_change_def)

section \<open>Loading file content\<close>

text \<open>
  C4 (as the code has it). The \<^verbatim>\<open>loadVersionFile\<close> case never looks at \<^verbatim>\<open>versionInfo\<close>:
  whether or not the metadata of the version is in the store, it returns a state that holds
  the normalised file under the version's id and the path, and leaves \<^verbatim>\<open>versionInfo\<close>,
  \<^verbatim>\<open>diffsByPath\<close> and \<^verbatim>\<open>byAddonId\<close> as they were. The state is unchanged exactly when that
  same file was already stored there. No error is raised.
\<close>

theorem C4_loadVersionFile_stores_file:
  "\<exists>state'. reducer state (loadVersionFile path version) = Inr state' \<and>
     (\<exists>files. getVersionFiles state' (xv_id version) = Some files \<and>
        files path = Some (createInternalVersionFile (xv_file version))) \<and>
     versionInfo state' = versionInfo state \<and>
     diffsByPath state' = diffsByPath state \<and>
     byAddonId state' = byAddonId state \<and>
     (state' = state \<longleftrightarrow>
        (\<exists>files. getVersionFiles state (xv_id version) = Some files \<and>
           files path = Some (createInternalVersionFile (xv_file version))))"
proof -
  let ?f = "createInternalVersionFile (xv_file version)"
  let ?vf = "versionFiles state"
  let ?m = "(spread_files (?vf (xv_id version)))(path \<mapsto> ?f)"
  let ?s = "state\<lparr>versionFiles := ?vf(xv_id version \<mapsto> ?m)\<rparr>"
  have r: "reducer state (loadVersionFile path version) = Inr ?s" by simp
  have "?s = state \<longleftrightarrow> ?vf(xv_id version \<mapsto> ?m) = ?vf"
  proof
    assume "?s = state"
    then have "versionFiles ?s = versionFiles state" by (rule arg_cong)
    then show "?vf(xv_id version \<mapsto> ?m) = ?vf" by simp
  next
    assume "?vf(xv_id version \<mapsto> ?m) = ?vf"
    then show "?s = state" by simp
  qed
  also have "\<dots> \<longleftrightarrow> ?vf (xv_id version) = Some ?m"
    by (metis fun_upd_same fun_upd_triv)
  also have "\<dots> \<longleftrightarrow> (\<exists>files. ?vf (xv_id version) = Some files \<and> files path = Some ?f)"
  proof (cases "?vf (xv_id version)")
    case None
    then show ?thesis by simp
  next
    case (Some a)
    have "a = a(path \<mapsto> ?f) \<longleftrightarrow> a path = Some ?f"
      by (metis fun_upd_same fun_upd_triv)
    with Some show ?thesis by (simp add: spread_files_def)
  qed
  finally have "?s = state \<longleftrightarrow>
      (\<exists>files. getVersionFiles state (xv_id version) = Some files \<and> files path = Some ?f)"
    by (simp add: getVersionFiles_def)
  with r show ?thesis by (simp add: getVersionFiles_def)
qed

text \<open>
  C4, the claim as stated fails: in the initial store, where version 1 has no metadata,
  loading the content of \<^verbatim>\<open>manifest.json\<close> of version 1 does not return the store unchanged.
\<close>

theorem C4_unknown_version_counterexample:
  "getVersionInfo initialState (Num 1) = None \<and>
   reducer initialState (loadVersionFile ''manifest.json'' (sample_version_with_content (Num 1)))
     \<noteq> Inr initialState"
proof -
  have "versionFiles s (Num 1) \<noteq> None"
    if "reducer initialState
          (loadVersionFile ''manifest.json'' (sample_version_with_content (Num 1))) = Inr s" for s
    using that by (auto simp: sample_version_with_content_def)
  moreover have "versionFiles initialState (Num 1) = None" by (simp add: initialState_def)
  ultimately show ?thesis by (auto simp: getVersionInfo_def initialState_def)
qed

section \<open>Loading a diff\<close>

text \<open>
  C10. The \<^verbatim>\<open>loadDiff\<close> case destructures \<^verbatim>\<open>getVersionInfo(state, headVersionId)\<close> before
  its guard: when the head version is not in the store it throws instead of returning the
  state. It returns a state exactly when the store holds a whole version under the head id;
  the silent return of the unchanged state is the case of a version whose selected path has
  no entry.
\<close>

theorem C10_loadDiff_needs_head_version:
  "(getVersionInfo state headVersionId = None \<longrightarrow>
      reducer state (loadDiff addonId baseVersionId headVersionId version) = Inl TypeError) \<and>
   ((\<exists>state'. reducer state (loadDiff addonId baseVersionId headVersionId version) = Inr state')
      \<longleftrightarrow> (\<exists>info. getVersionInfo state headVersionId = Some (Whole info))) \<and>
   (\<forall>info. getVersionInfo state headVersionId = Some (Whole info) \<and>
      find (\<lambda>e. ve_path e = v_selectedPath info) (v_entries info) = None \<longrightarrow>
      reducer state (loadDiff addonId baseVersionId headVersionId version) = Inr state)"
  by (auto split: option.splits StoredVersion.splits)

text \<open>
  The initial store has no version 2, and loading a diff with head 2 throws. In a store
  whose version 2 has \<^verbatim>\<open>B\<close> selected but no entry for it, the same action returns the store.
\<close>

theorem C10_witness:
  "getVersionInfo initialState (Num 2) = None \<and>
   reducer initialState
     (loadDiff (Num 9999) (Num 1) (Num 2)
        (sample_version_with_diff (Num 2) [''manifest.json''] ''manifest.json''))
     = Inl TypeError \<and>
   getVersionInfo state_with_stale_selection (Num 2) = Some (Whole (sample_info [''A''] ''B'')) \<and>
   find (\<lambda>e. ve_path e = v_selectedPath (sample_info [''A''] ''B''))
     (v_entries (sample_info [''A''] ''B'')) = None \<and>
   reducer state_with_stale_selection
     (loadDiff (Num 9999) (Num 1) (Num 2)
        (sample_version_with_diff (Num 2) [''manifest.json''] ''manifest.json''))
     = Inr state_with_stale_selection"
proof -
  let ?v = "sample_version_with_diff (Num 2) [''manifest.json''] ''manifest.json''"
  have none: "getVersionInfo initialState (Num 2) = None"
    by (simp add: getVersionInfo_def initialState_def)
  have stale: "getVersionInfo state_with_stale_selection (Num 2) =
      Some (Whole (sample_info [''A''] ''B'')) \<and>
    find (\<lambda>e. ve_path e = v_selectedPath (sample_info [''A''] ''B''))
      (v_entries (sample_info [''A''] ''B'')) = None"
    by (simp add: getVersionInfo_def state_with_stale_selection_def sample_info_def
        createInternalVersion_def sample_version_with_diff_def createInternalVersionEntry_def
        sample_entry_def)
  from C10_loadDiff_needs_head_version [of initialState "Num 2" "Num 9999" "Num 1" ?v,
      THEN conjunct1, rule_format, OF none]
    C10_loadDiff_needs_head_version [of state_with_stale_selection "Num 2" "Num 9999" "Num 1" ?v,
      THEN conjunct2, THEN conjunct2, rule_format, OF stale]
    none stale
  show ?thesis by blast
qed

text \<open>
  C7. When the mapping of a comparison holds diffs for the paths \<open>A\<close> and \<open>B\<close>, the head
  version's selected path is a third path \<open>C\<close>, and \<open>C\<close> has an entry, the \<^verbatim>\<open>loadDiff\<close> case
  returns a state whose mapping for that comparison holds \<open>A\<close> and \<open>B\<close> as before, the new
  entry for \<open>C\<close>, and the same value as before at every other path.
\<close>

theorem C7_loadDiff_preserves_siblings:
  assumes "getCompareInfoMap state addonId baseVersionId headVersionId = Some (Some m)"
    and "m A = Some dA" and "m B = Some dB"
    and "getVersionInfo state headVersionId = Some (Whole info)"
    and "v_selectedPath info = C" and "C \<noteq> A" and "C \<noteq> B"
    and "find (\<lambda>e. ve_path e = C) (v_entries info) = Some entry"
  shows "\<exists>state' m'.
     reducer state (loadDiff addonId baseVersionId headVersionId version) = Inr state' \<and>
     getCompareInfoMap state' addonId baseVersionId headVersionId = Some (Some m') \<and>
     m' A = Some dA \<and> m' B = Some dB \<and>
     m' C = Some \<lparr>cmp_diffs = createInternalDiffs baseVersionId headVersionId version,
                   cmp_mimeType = ve_mimeType entry\<rparr> \<and>
     (\<forall>p. p \<noteq> C \<longrightarrow> m' p = m p)"
  using assms by (simp add: getCompareInfoMap_def spread_diffs_def)

lemma sample_info_entries:
  "find (\<lambda>e. ve_path e = ''C'') (v_entries (sample_info [''A'', ''B'', ''C''] ''C''))
     = Some (createInternalVersionEntry (sample_entry ''C''))"
  by (simp add: sample_info_def createInternalVersion_def sample_version_with_diff_def
      createInternalVersionEntry_def sample_entry_def)

text \<open>A store with diffs for \<open>A\<close> and \<open>B\<close> under \<open>(9999, 1, 2)\<close> and \<open>C\<close> selected.\<close>

theorem C7_witness:
  "\<exists>state' m'.
     reducer state_with_A_B
       (loadDiff (Num 9999) (Num 1) (Num 2) (sample_version_with_diff (Num 2) [''A'', ''B'', ''C''] ''C''))
       = Inr state' \<and>
     getCompareInfoMap state' (Num 9999) (Num 1) (Num 2) = Some (Some m') \<and>
     m' ''A'' = Some (sample_compare_info ''text/a'') \<and>
     m' ''B'' = Some (sample_compare_info ''text/b'') \<and>
     m' ''C'' =
       Some \<lparr>cmp_diffs = createInternalDiffs (Num 1) (Num 2)
                 (sample_version_with_diff (Num 2) [''A'', ''B'', ''C''] ''C''),
             cmp_mimeType = ve_mimeType (createInternalVersionEntry (sample_entry ''C''))\<rparr>"
proof -
  let ?m = "[''A'' \<mapsto> sample_compare_info ''text/a'', ''B'' \<mapsto> sample_compare_info ''text/b'']"
  have 1: "getCompareInfoMap state_with_A_B (Num 9999) (Num 1) (Num 2) = Some (Some ?m)"
    by (simp add: getCompareInfoMap_def getDiffsKey_9999_1_2 state_with_A_B_def)
  have 2: "getVersionInfo state_with_A_B (Num 2) = Some (Whole (sample_info [''A'', ''B'', ''C''] ''C''))"
    by (simp add: getVersionInfo_def state_with_A_B_def)
  have 3: "v_selectedPath (sample_info [''A'', ''B'', ''C''] ''C'') = ''C''"
    by (simp add: sample_info_def createInternalVersion_def sample_version_with_diff_def)
  have 4: "?m ''A'' = Some (sample_compare_info ''text/a'')" by simp
  have 5: "?m ''B'' = Some (sample_compare_info ''text/b'')" by simp
  have 6: "''C'' \<noteq> ''A''" "''C'' \<noteq> ''B''" by simp_all
  from C7_loadDiff_preserves_siblings [OF 1 4 5 2 3 6 sample_info_entries]
  show ?thesis by blast
qed

section \<open>Facts shared by the scenarios\<close>

lemma sample_route: 
  "parseInt10 (rp_addonId (sample_params l ''9999'' ''1'' ''2'')) = Num 9999"
  "parseInt10 (rp_baseVersionId (sample_params l ''9999'' ''1'' ''2'')) = Num 1"
  "parseInt10 (rp_headVersionId (sample_params l ''9999'' ''1'' ''2'')) = Num 2"
  by (simp_all add: sample_params_def parseInt10_1 parseInt10_2 parseInt10_9999)

lemma sample_info_simps:
  "v_selectedPath (sample_info paths p) = p"
  "v_entries (sample_info paths p) = map (\<lambda>q. createInternalVersionEntry (sample_entry q)) paths"
  by (simp_all add: sample_info_def createInternalVersion_def sample_version_with_diff_def comp_def)

lemma sample_entry_simps:
  "ve_path (createInternalVersionEntry (sample_entry q)) = q"
  "ve_mimeType (createInternalVersionEntry (sample_entry q)) = ''application/json''"
  by (simp_all add: createInternalVersionEntry_def sample_entry_def)

lemma fetchDiff_suspends:
  "fetchDiff params s =
     \<lparr>ss_events = ss_events s @
        [Dispatched (beginFetchDiff (fp_addonId params) (fp_baseVersionId params)
                       (fp_headVersionId params)),
         GetDiffCalled \<lparr>gd_addonId = fp_addonId params,
                        gd_baseVersionId = fp_baseVersionId params,
                        gd_headVersionId = Num 123, gd_path = fp_path params\<rparr>],
      ss_store = (ss_store s)\<lparr>diffsByPath :=
        (diffsByPath (ss_store s))
          (getDiffsKey (fp_addonId params) (fp_baseVersionId params) (fp_headVersionId params)
             \<mapsto> Some Map.empty)\<rparr>,
      ss_pending = ss_pending s @ [params]\<rparr>"
  by (simp add: fetchDiff_def fetchDiff_request_def emit_def dispatched_def Let_def)

lemma mount_sample:
  "mount (sample_params ''en-US'' ''9999'' ''1'' ''2'') (session_of state) =
     \<lparr>ss_events =
        [Dispatched (beginFetchDiff (Num 9999) (Num 1) (Num 2)),
         GetDiffCalled \<lparr>gd_addonId = Num 9999, gd_baseVersionId = Num 1,
                        gd_headVersionId = Num 123, gd_path = None\<rparr>],
      ss_store = state\<lparr>diffsByPath := (diffsByPath state)(''9999/1/2'' \<mapsto> Some Map.empty)\<rparr>,
      ss_pending = [\<lparr>fp_addonId = Num 9999, fp_baseVersionId = Num 1,
                     fp_headVersionId = Num 2, fp_path = None\<rparr>]\<rparr>"
  by (simp add: mount_def componentDidMount_def loadData_def sample_route fetchDiff_suspends
      session_of_def getDiffsKey_9999_1_2)

lemma sample_answer:
  assumes "ss_pending s = \<lparr>fp_addonId = Num 9999, fp_baseVersionId = Num 1,
                            fp_headVersionId = Num 2, fp_path = p\<rparr> # rest"
    and "q = (case p of None \<Rightarrow> ''A'' | Some p' \<Rightarrow> p')"
    and "q \<in> {''A'', ''B'', ''C''}"
  shows "answer 0 (getDiff_sample \<lparr>gd_addonId = Num 9999, gd_baseVersionId = Num 1,
                      gd_headVersionId = Num 123, gd_path = p\<rparr>) s =
     \<lparr>ss_events = ss_events s @
        [Dispatched (loadVersionInfo
           (Inr (sample_version_with_diff (Num 2) [''A'', ''B'', ''C''] q))),
         Dispatched (loadDiff (Num 9999) (Num 1) (Num 2)
           (sample_version_with_diff (Num 2) [''A'', ''B'', ''C''] q))],
      ss_store = (ss_store s)
        \<lparr>versionInfo := (versionInfo (ss_store s))
           (Num 2 \<mapsto> Whole (sample_info [''A'', ''B'', ''C''] q)),
         diffsByPath := (diffsByPath (ss_store s))
           (''9999/1/2'' \<mapsto>
              Some ((spread_diffs (diffsByPath (ss_store s) ''9999/1/2''))
                      (q \<mapsto> sample_loaded_info q)))\<rparr>,
      ss_pending = rest\<rparr>"
proof -
  have id: "xv_id (sample_version_with_diff (Num 2) [''A'', ''B'', ''C''] q) = Num 2"
    by (simp add: sample_version_with_diff_def)
  have ci: "createInternalVersion (sample_version_with_diff (Num 2) [''A'', ''B'', ''C''] q)
      = sample_info [''A'', ''B'', ''C''] q"
    by (simp add: sample_info_def)
  have found: "find (\<lambda>e. ve_path e = q) (v_entries (sample_info [''A'', ''B'', ''C''] q)) =
      Some (createInternalVersionEntry (sample_entry q))"
    using assms(3) by (auto simp: sample_info_simps sample_entry_simps)
  show ?thesis
    using assms(1)
    by (simp add: answer_def fetchDiff_resumed_def getDiff_sample_def assms(2) [symmetric]
        dispatch_def dispatched_def id ci getVersionInfo_def sample_info_simps(1) found
        sample_entry_simps getDiffsKey_9999_1_2 sample_loaded_info_def Let_def)
qed

lemma mount_sample_loads:
  "answer 0 (getDiff_sample \<lparr>gd_addonId = Num 9999, gd_baseVersionId = Num 1,
                gd_headVersionId = Num 123, gd_path = None\<rparr>)
     (mount (sample_params ''en-US'' ''9999'' ''1'' ''2'') (session_of initialState)) =
     \<lparr>ss_events =
        [Dispatched (beginFetchDiff (Num 9999) (Num 1) (Num 2)),
         GetDiffCalled \<lparr>gd_addonId = Num 9999, gd_baseVersionId = Num 1,
                        gd_headVersionId = Num 123, gd_path = None\<rparr>,
         Dispatched (loadVersionInfo
           (Inr (sample_version_with_diff (Num 2) [''A'', ''B'', ''C''] ''A''))),
         Dispatched (loadDiff (Num 9999) (Num 1) (Num 2)
           (sample_version_with_diff (Num 2) [''A'', ''B'', ''C''] ''A''))],
      ss_store = state_after_load,
      ss_pending = []\<rparr>"
  by (subst sample_answer [where q = "''A''"])
     (simp_all add: mount_sample initialState_def state_after_load_def spread_diffs_def)

lemma reducer_other_comparison:
  assumes "reducer state act = Inr state'"
    and "comparison_of act \<noteq> Some (addonId, baseVersionId, headVersionId)"
  shows "getCompareInfoMap state' addonId baseVersionId headVersionId =
         getCompareInfoMap state addonId baseVersionId headVersionId"
proof (cases act)
  case (beginFetchDiff a b h)
  with assms(2) have "getDiffsKey a b h \<noteq> getDiffsKey addonId baseVersionId headVersionId"
    using getDiffsKey_inj by fastforce
  with assms(1) beginFetchDiff show ?thesis by (auto simp: getCompareInfoMap_def)
next
  case (abortFetchDiff a b h)
  with assms(2) have "getDiffsKey a b h \<noteq> getDiffsKey addonId baseVersionId headVersionId"
    using getDiffsKey_inj by fastforce
  with assms(1) abortFetchDiff show ?thesis by (auto simp: getCompareInfoMap_def)
next
  case (loadDiff a b h version)
  with assms(2) have "getDiffsKey a b h \<noteq> getDiffsKey addonId baseVersionId headVersionId"
    using getDiffsKey_inj by fastforce
  with assms(1) loadDiff show ?thesis
    by (auto simp: getCompareInfoMap_def split: option.splits StoredVersion.splits)
qed (use assms(1) in \<open>auto simp: getCompareInfoMap_def\<close>)

lemma reduce_all_other_comparisons:
  assumes "reduce_all state acts = Inr state'"
    and "\<forall>act \<in> set acts. comparison_of act \<noteq> Some (addonId, baseVersionId, headVersionId)"
  shows "getCompareInfoMap state' addonId baseVersionId headVersionId =
         getCompareInfoMap state addonId baseVersionId headVersionId"
  using assms
proof (induction acts arbitrary: state)
  case Nil
  then show ?case by simp
next
  case (Cons act acts)
  from Cons.prems(1) obtain mid where mid: "reducer state act = Inr mid"
    and rest: "reduce_all mid acts = Inr state'"
    by (auto split: sum.splits)
  from Cons.IH [OF rest] Cons.prems(2)
  have "getCompareInfoMap state' addonId baseVersionId headVersionId =
        getCompareInfoMap mid addonId baseVersionId headVersionId" by simp
  also from mid Cons.prems(2)
  have "\<dots> = getCompareInfoMap state addonId baseVersionId headVersionId"
    by (intro reducer_other_comparison) auto
  finally show ?case .
qed

lemma reduce_all_loadVersionInfo:
  "reduce_all initialState
     [loadVersionInfo (Inr (sample_version_with_diff (Num 2) [''manifest.json''] ''manifest.json''))]
   = Inr state_with_version"
  by (simp add: initialState_def state_with_version_def sample_info_def)
     (simp add: sample_version_with_diff_def)

section \<open>Mounting the page\<close>

text \<open>
  C1 (the code departs from the claim). Mounting with \<^verbatim>\<open>addonId=9999\<close>, \<^verbatim>\<open>baseVersionId=1\<close>,
  \<^verbatim>\<open>headVersionId=2\<close> dispatches \<^verbatim>\<open>beginFetchDiff\<close> for \<open>(9999, 1, 2)\<close> and then calls the
  API client, but with \<^verbatim>\<open>headVersionId: 123\<close>, the constant written in \<^verbatim>\<open>fetchDiff\<close>, not
  the \<open>2\<close> parsed from the route. This holds in every session: whatever the store holds and
  whatever is still in flight.
\<close>

theorem C1_mount_calls_getDiff_with_123:
  "ss_events (mount (sample_params ''en-US'' ''9999'' ''1'' ''2'') s) =
     ss_events s @
     [Dispatched (beginFetchDiff (Num 9999) (Num 1) (Num 2)),
      GetDiffCalled \<lparr>gd_addonId = Num 9999, gd_baseVersionId = Num 1,
                     gd_headVersionId = Num 123, gd_path = None\<rparr>]"
  by (simp add: mount_def componentDidMount_def loadData_def sample_route fetchDiff_suspends)

section \<open>The redirect\<close>

text \<open>
  C5 (as the code has it). On mount, for every route whose base version id parses to a
  greater integer than its head version id (both within the range where JavaScript numbers
  are exact), \<^verbatim>\<open>componentDidMount\<close> does one thing: it pushes
  \<^verbatim>\<open>/{lang}/compare/{addonId}/versions/{headVersionId}...{baseVersionId}/\<close>. Nothing is
  dispatched, the API client is not called, no request is left in flight, and the store is
  unchanged.
\<close>

theorem C5_mount_redirects_when_base_newer:
  assumes "parseInt10 (rp_baseVersionId params) = Num b"
    and "parseInt10 (rp_headVersionId params) = Num h"
    and "safe_integer b" and "safe_integer h"
    and "b > h"
  shows "componentDidMount params =
           [history_push (''/'' @ rp_lang params @ ''/compare/'' @ rp_addonId params @
              ''/versions/'' @ rp_headVersionId params @ ''...'' @ rp_baseVersionId params @ ''/'')] \<and>
         mount params s =
           s\<lparr>ss_events := ss_events s @
              [HistoryPushed (''/'' @ rp_lang params @ ''/compare/'' @ rp_addonId params @
                 ''/versions/'' @ rp_headVersionId params @ ''...'' @ rp_baseVersionId params @
                 ''/'')]\<rparr>"
  using assms by (simp add: componentDidMount_def mount_def emit_def)

text \<open>
  With \<^verbatim>\<open>baseVersionId=2\<close>, \<^verbatim>\<open>headVersionId=1\<close>, \<^verbatim>\<open>lang="es"\<close>, \<^verbatim>\<open>addonId=123456\<close> the
  pushed URL is \<^verbatim>\<open>/es/compare/123456/versions/1...2/\<close>.
\<close>

theorem C5_witness:
  "parseInt10 ''2'' = Num 2 \<and> parseInt10 ''1'' = Num 1 \<and> safe_integer 2 \<and> safe_integer 1 \<and>
   (2::int) > 1 \<and>
   componentDidMount (sample_params ''es'' ''123456'' ''2'' ''1'') =
     [history_push ''/es/compare/123456/versions/1...2/''] \<and>
   mount (sample_params ''es'' ''123456'' ''2'' ''1'') (session_of initialState) =
     \<lparr>ss_events = [HistoryPushed ''/es/compare/123456/versions/1...2/''],
      ss_store = initialState, ss_pending = []\<rparr>"
proof -
  have s: "safe_integer 2" "safe_integer 1" by (simp_all add: safe_integer_def)
  have p: "parseInt10 (rp_baseVersionId (sample_params ''es'' ''123456'' ''2'' ''1'')) = Num 2"
    "parseInt10 (rp_headVersionId (sample_params ''es'' ''123456'' ''2'' ''1'')) = Num 1"
    by (simp_all add: sample_params_def parseInt10_1 parseInt10_2)
  have "(2::int) > 1" by simp
  from C5_mount_redirects_when_base_newer [OF p s this, of "session_of initialState"]
  show ?thesis using s by (simp add: sample_params_def parseInt10_1 parseInt10_2 session_of_def)
qed

text \<open>
  C5, the claim as stated fails on a parameter update: \<^verbatim>\<open>componentDidUpdate\<close> only calls
  \<^verbatim>\<open>loadData\<close>. When the route changes from \<open>1...2\<close> to \<open>2...1\<close> there is no redirect and the
  diff is fetched with base 2 and head 1.
\<close>

theorem C5_update_counterexample:
  "js_gt (parseInt10 ''2'') (parseInt10 ''1'') \<and>
   componentDidUpdate (sample_params ''es'' ''123456'' ''2'' ''1'')
                      (sample_params ''es'' ''123456'' ''1'' ''2'') =
     [dispatch_fetchDiff \<lparr>fp_addonId = Num 123456, fp_baseVersionId = Num 2,
                          fp_headVersionId = Num 1, fp_path = None\<rparr>]"
  by (simp add: componentDidUpdate_def loadData_def sample_params_def
      parseInt10_1 parseInt10_2 parseInt10_123456)

section \<open>The three states of the diff cache\<close>

text \<open>
  C6. Through \<^verbatim>\<open>getCompareInfoMap\<close> a comparison is in one of three states. Starting from the
  initial store, as long as no action begins, aborts or loads a diff for the comparison, the
  selector returns \<^verbatim>\<open>undefined\<close>. Right after \<^verbatim>\<open>beginFetchDiff\<close> it returns the empty
  mapping, right after \<^verbatim>\<open>abortFetchDiff\<close> it returns \<^verbatim>\<open>null\<close>, and after a \<^verbatim>\<open>loadDiff\<close>
  that finds the entry of the head version's selected path it returns a mapping with an
  entry for that path.
\<close>

theorem C6_three_state_cache:
  "(\<forall>acts state'. reduce_all initialState acts = Inr state' \<and>
      (\<forall>act \<in> set acts. comparison_of act \<noteq> Some (addonId, baseVersionId, headVersionId)) \<longrightarrow>
      getCompareInfoMap state' addonId baseVersionId headVersionId = None) \<and>
   (\<exists>state'. reducer state (beginFetchDiff addonId baseVersionId headVersionId) = Inr state' \<and>
      getCompareInfoMap state' addonId baseVersionId headVersionId = Some (Some Map.empty)) \<and>
   (\<exists>state'. reducer state (abortFetchDiff addonId baseVersionId headVersionId) = Inr state' \<and>
      getCompareInfoMap state' addonId baseVersionId headVersionId = Some None) \<and>
   (\<forall>info entry. getVersionInfo state headVersionId = Some (Whole info) \<and>
      find (\<lambda>e. ve_path e = v_selectedPath info) (v_entries info) = Some entry \<longrightarrow>
      (\<exists>state' m. reducer state (loadDiff addonId baseVersionId headVersionId version) = Inr state' \<and>
         getCompareInfoMap state' addonId baseVersionId headVersionId = Some (Some m) \<and>
         m (v_selectedPath info) \<noteq> None))"
proof (intro conjI allI impI)
  fix acts state'
  assume "reduce_all initialState acts = Inr state' \<and>
      (\<forall>act \<in> set acts. comparison_of act \<noteq> Some (addonId, baseVersionId, headVersionId))"
  then have "getCompareInfoMap state' addonId baseVersionId headVersionId =
      getCompareInfoMap initialState addonId baseVersionId headVersionId"
    using reduce_all_other_comparisons by blast
  then show "getCompareInfoMap state' addonId baseVersionId headVersionId = None"
    by (simp add: getCompareInfoMap_def initialState_def)
next
  show "\<exists>state'. reducer state (beginFetchDiff addonId baseVersionId headVersionId) = Inr state' \<and>
      getCompareInfoMap state' addonId baseVersionId headVersionId = Some (Some Map.empty)"
    by (simp add: getCompareInfoMap_def)
next
  show "\<exists>state'. reducer state (abortFetchDiff addonId baseVersionId headVersionId) = Inr state' \<and>
      getCompareInfoMap state' addonId baseVersionId headVersionId = Some None"
    by (simp add: getCompareInfoMap_def)
next
  fix info entry
  assume "getVersionInfo state headVersionId = Some (Whole info) \<and>
      find (\<lambda>e. ve_path e = v_selectedPath info) (v_entries info) = Some entry"
  then show "\<exists>state' m. reducer state (loadDiff addonId baseVersionId headVersionId version) = Inr state' \<and>
         getCompareInfoMap state' addonId baseVersionId headVersionId = Some (Some m) \<and>
         m (v_selectedPath info) \<noteq> None"
    by (simp add: getCompareInfoMap_def)
qed

text \<open>
  After the metadata of version 2 was loaded, \<open>(9999, 1, 2)\<close> is still not requested, and
  loading its diff stores an entry for \<^verbatim>\<open>manifest.json\<close>.
\<close>

theorem C6_witness:
  "reduce_all initialState
     [loadVersionInfo (Inr (sample_version_with_diff (Num 2) [''manifest.json''] ''manifest.json''))]
     = Inr state_with_version \<and>
   getCompareInfoMap state_with_version (Num 9999) (Num 1) (Num 2) = None \<and>
   (\<exists>state' m.
      reducer state_with_version
        (loadDiff (Num 9999) (Num 1) (Num 2)
           (sample_version_with_diff (Num 2) [''manifest.json''] ''manifest.json'')) = Inr state' \<and>
      getCompareInfoMap state' (Num 9999) (Num 1) (Num 2) = Some (Some m) \<and>
      m ''manifest.json'' \<noteq> None)"
proof -
  let ?v = "sample_version_with_diff (Num 2) [''manifest.json''] ''manifest.json''"
  note t = C6_three_state_cache [of "Num 9999" "Num 1" "Num 2" state_with_version ?v]
  have a: "getCompareInfoMap state_with_version (Num 9999) (Num 1) (Num 2) = None"
    using t [THEN conjunct1, rule_format, of "[loadVersionInfo (Inr ?v)]" state_with_version]
      reduce_all_loadVersionInfo by simp
  have "getVersionInfo state_with_version (Num 2) =
          Some (Whole (sample_info [''manifest.json''] ''manifest.json'')) \<and>
        find (\<lambda>e. ve_path e = v_selectedPath (sample_info [''manifest.json''] ''manifest.json''))
          (v_entries (sample_info [''manifest.json''] ''manifest.json'')) =
          Some (createInternalVersionEntry (sample_entry ''manifest.json''))"
    by (simp add: getVersionInfo_def state_with_version_def sample_info_simps sample_entry_simps)
  from t [THEN conjunct2, THEN conjunct2, THEN conjunct2, rule_format, OF this]
  have "\<exists>state' m.
      reducer state_with_version (loadDiff (Num 9999) (Num 1) (Num 2) ?v) = Inr state' \<and>
      getCompareInfoMap state' (Num 9999) (Num 1) (Num 2) = Some (Some m) \<and>
      m ''manifest.json'' \<noteq> None"
    by (simp add: sample_info_simps)
  with a reduce_all_loadVersionInfo show ?thesis by blast
qed

section \<open>Updates and mounts with the same route\<close>

text \<open>
  C8 (as the code has it). An update whose \<open>(addonId, baseVersionId, headVersionId)\<close> equals
  the previous one dispatches nothing and leaves the session as it is. A mount has no
  previous route: unless it redirects, it dispatches the thunk of \<^verbatim>\<open>fetchDiff\<close> for the
  route, which dispatches \<^verbatim>\<open>beginFetchDiff\<close> and calls the API client, whatever the store
  holds.
\<close>

theorem C8_same_tuple_update_is_silent:
  "(rp_addonId params = rp_addonId prevProps \<and>
    rp_baseVersionId params = rp_baseVersionId prevProps \<and>
    rp_headVersionId params = rp_headVersionId prevProps \<longrightarrow>
      componentDidUpdate params prevProps = [] \<and>
      update params prevProps s = s) \<and>
   (\<not> js_gt (parseInt10 (rp_baseVersionId params)) (parseInt10 (rp_headVersionId params)) \<longrightarrow>
      componentDidMount params =
        [dispatch_fetchDiff
           \<lparr>fp_addonId = parseInt10 (rp_addonId params),
            fp_baseVersionId = parseInt10 (rp_baseVersionId params),
            fp_headVersionId = parseInt10 (rp_headVersionId params),
            fp_path = None\<rparr>] \<and>
      (\<exists>request.
         ss_events (mount params s) =
           ss_events s @
           [Dispatched (beginFetchDiff (parseInt10 (rp_addonId params))
              (parseInt10 (rp_baseVersionId params)) (parseInt10 (rp_headVersionId params))),
            GetDiffCalled request] \<and>
         gd_path request = None))"
proof (intro conjI impI)
  assume same: "rp_addonId params = rp_addonId prevProps \<and>
    rp_baseVersionId params = rp_baseVersionId prevProps \<and>
    rp_headVersionId params = rp_headVersionId prevProps"
  then show "componentDidUpdate params prevProps = []"
    by (simp add: componentDidUpdate_def loadData_def)
  then show "update params prevProps s = s"
    by (simp add: update_def)
next
  assume le: "\<not> js_gt (parseInt10 (rp_baseVersionId params)) (parseInt10 (rp_headVersionId params))"
  then show m: "componentDidMount params =
        [dispatch_fetchDiff
           \<lparr>fp_addonId = parseInt10 (rp_addonId params),
            fp_baseVersionId = parseInt10 (rp_baseVersionId params),
            fp_headVersionId = parseInt10 (rp_headVersionId params),
            fp_path = None\<rparr>]"
    by (simp add: componentDidMount_def loadData_def)
  show "\<exists>request.
         ss_events (mount params s) =
           ss_events s @
           [Dispatched (beginFetchDiff (parseInt10 (rp_addonId params))
              (parseInt10 (rp_baseVersionId params)) (parseInt10 (rp_headVersionId params))),
            GetDiffCalled request] \<and>
         gd_path request = None"
    by (simp add: mount_def m fetchDiff_suspends)
qed

theorem C8_witness:
  "componentDidUpdate (sample_params ''en-US'' ''9999'' ''1'' ''2'')
     (sample_params ''en-US'' ''9999'' ''1'' ''2'') = [] \<and>
   update (sample_params ''en-US'' ''9999'' ''1'' ''2'')
     (sample_params ''en-US'' ''9999'' ''1'' ''2'') (session_of state_after_load) =
     session_of state_after_load \<and>
   componentDidMount (sample_params ''en-US'' ''9999'' ''1'' ''2'') =
     [dispatch_fetchDiff \<lparr>fp_addonId = Num 9999, fp_baseVersionId = Num 1,
                          fp_headVersionId = Num 2, fp_path = None\<rparr>]"
  using C8_same_tuple_update_is_silent [of "sample_params ''en-US'' ''9999'' ''1'' ''2''"
      "sample_params ''en-US'' ''9999'' ''1'' ''2''" "session_of state_after_load"]
  by (simp add: sample_route)

text \<open>
  C8, the claim as stated fails on a second mount: after the page was mounted on
  \<open>(9999, 1, 2)\<close> and the answer arrived and the diff was loaded, mounting again on the same
  route dispatches \<^verbatim>\<open>beginFetchDiff\<close> and calls the API client again.
\<close>

theorem C8_remount_counterexample:
  "ss_store
     (answer 0 (getDiff_sample \<lparr>gd_addonId = Num 9999, gd_baseVersionId = Num 1,
                  gd_headVersionId = Num 123, gd_path = None\<rparr>)
        (mount (sample_params ''en-US'' ''9999'' ''1'' ''2'') (session_of initialState))) =
     state_after_load \<and>
   getCompareInfoMap state_after_load (Num 9999) (Num 1) (Num 2) =
     Some (Some [''A'' \<mapsto> sample_loaded_info ''A'']) \<and>
   ss_events (mount (sample_params ''en-US'' ''9999'' ''1'' ''2'') (session_of state_after_load)) =
     [Dispatched (beginFetchDiff (Num 9999) (Num 1) (Num 2)),
      GetDiffCalled \<lparr>gd_addonId = Num 9999, gd_baseVersionId = Num 1,
                     gd_headVersionId = Num 123, gd_path = None\<rparr>]"
proof (intro conjI)
  show "ss_store
     (answer 0 (getDiff_sample \<lparr>gd_addonId = Num 9999, gd_baseVersionId = Num 1,
                  gd_headVersionId = Num 123, gd_path = None\<rparr>)
        (mount (sample_params ''en-US'' ''9999'' ''1'' ''2'') (session_of initialState))) =
     state_after_load"
    by (simp add: mount_sample_loads)
  show "getCompareInfoMap state_after_load (Num 9999) (Num 1) (Num 2) =
     Some (Some [''A'' \<mapsto> sample_loaded_info ''A''])"
    by (simp add: getCompareInfoMap_def getDiffsKey_9999_1_2 state_after_load_def)
  show "ss_events (mount (sample_params ''en-US'' ''9999'' ''1'' ''2'') (session_of state_after_load)) =
     [Dispatched (beginFetchDiff (Num 9999) (Num 1) (Num 2)),
      GetDiffCalled \<lparr>gd_addonId = Num 9999, gd_baseVersionId = Num 1,
                     gd_headVersionId = Num 123, gd_path = None\<rparr>]"
    by (simp add: mount_sample)
qed

section \<open>The type of a diff\<close>

text \<open>
  C9 (the code departs from the claim). The mode \<^verbatim>\<open>constructor\<close> is none of \<open>A\<close>, \<open>C\<close>, \<open>D\<close>,
  \<open>M\<close>, \<open>R\<close>, yet the type of the diff is not \<^verbatim>\<open>modify\<close>: the property read
  \<^verbatim>\<open>GIT_STATUS_TO_TYPE[diff.mode]\<close> finds the member that every object inherits under that
  name, which is truthy, so the default after \<^verbatim>\<open>||\<close> is not taken.
\<close>

theorem C9_mode_constructor_is_not_modify:
  "map di_type (createInternalDiffs (Num 1) (Num 2) (sample_version_with_mode ''constructor''))
     = [Inherited ''constructor'']"
  by (simp add: createInternalDiffs_def createInternalDiff_def sample_version_with_mode_def
      sample_diff_def js_or_def get_property_def GIT_STATUS_TO_TYPE_def object_prototype_keys_def)

text \<open>
  The whole table: the five letters give their types, a name of \<^verbatim>\<open>Object.prototype\<close> gives
  the inherited member, and every other mode gives \<^verbatim>\<open>modify\<close>. No mode raises an error.
\<close>

theorem mode_to_type_table:
  "di_type (createInternalDiff baseVersionId headVersionId diff) =
     (if xd_mode diff = ''A'' then Own ''add''
      else if xd_mode diff = ''C'' then Own ''copy''
      else if xd_mode diff = ''D'' then Own ''delete''
      else if xd_mode diff = ''M'' then Own ''modify''
      else if xd_mode diff = ''R'' then Own ''rename''
      else if xd_mode diff \<in> set object_prototype_keys then Inherited (xd_mode diff)
      else Own ''modify'')"
  by (simp add: createInternalDiff_def js_or_def get_property_def GIT_STATUS_TO_TYPE_def)

section \<open>Selecting a file\<close>

lemma diff_missing_B:
  "diff_missing (mapStateToProps_compareInfoMap state_after_load
     (sample_params ''en-US'' ''9999'' ''1'' ''2'')) ''B''"
  by (simp add: diff_missing_def mapStateToProps_compareInfoMap_def sample_route
      getCompareInfoMap_def getDiffsKey_9999_1_2 state_after_load_def get_property_def
      object_prototype_keys_def)

lemma selectFile_sample_B:
  "selectFile (sample_params ''en-US'' ''9999'' ''1'' ''2'') ''B'' (session_of state_after_load) =
     \<lparr>ss_events =
        [Dispatched (updateSelectedPath ''B'' (Num 2)),
         Dispatched (beginFetchDiff (Num 9999) (Num 1) (Num 2)),
         GetDiffCalled \<lparr>gd_addonId = Num 9999, gd_baseVersionId = Num 1,
                        gd_headVersionId = Num 123, gd_path = Some ''B''\<rparr>],
      ss_store =
        \<lparr>byAddonId = Map.empty,
         diffsByPath = [''9999/1/2'' \<mapsto> Some Map.empty],
         versionInfo = [Num 2 \<mapsto> Whole (sample_info [''A'', ''B'', ''C''] ''A''
                                          \<lparr>v_selectedPath := ''B''\<rparr>)],
         versionFiles = Map.empty\<rparr>,
      ss_pending = [\<lparr>fp_addonId = Num 9999, fp_baseVersionId = Num 1,
                     fp_headVersionId = Num 2, fp_path = Some ''B''\<rparr>]\<rparr>"
proof -
  have eff: "onSelectFile (sample_params ''en-US'' ''9999'' ''1'' ''2'')
      (mapStateToProps_compareInfoMap (ss_store (session_of state_after_load))
         (sample_params ''en-US'' ''9999'' ''1'' ''2''))
      ''B'' =
      [dispatch_action (updateSelectedPath ''B'' (Num 2)),
       dispatch_fetchDiff \<lparr>fp_addonId = Num 9999, fp_baseVersionId = Num 1,
                           fp_headVersionId = Num 2, fp_path = Some ''B''\<rparr>]"
    by (simp add: onSelectFile_def diff_missing_B sample_route session_of_def)
  show ?thesis
    unfolding selectFile_def eff
    by (simp add: fetchDiff_suspends dispatched_def session_of_def state_after_load_def
        spread_selectedPath_def getDiffsKey_9999_1_2)
qed

lemma selectFile_sample_B_answered:
  "ss_store
     (answer 0 (getDiff_sample \<lparr>gd_addonId = Num 9999, gd_baseVersionId = Num 1,
                  gd_headVersionId = Num 123, gd_path = Some ''B''\<rparr>)
        (selectFile (sample_params ''en-US'' ''9999'' ''1'' ''2'') ''B''
           (session_of state_after_load))) = state_after_select_B"
  by (subst sample_answer [where q = "''B''"])
     (simp_all add: selectFile_sample_B state_after_select_B_def spread_diffs_def)

text \<open>
  C2 (as the code has it). When a file is selected and \<^verbatim>\<open>!compareInfoMap || !compareInfoMap[path]\<close>
  holds, \<^verbatim>\<open>onSelectFile\<close> dispatches \<^verbatim>\<open>updateSelectedPath\<close> and then the thunk of \<^verbatim>\<open>fetchDiff\<close>
  with that path. The thunk is the one the mount uses: it dispatches \<^verbatim>\<open>beginFetchDiff\<close>
  before it calls the API client for the path. When the handler returns, the request is in
  flight and the mapping of the comparison is empty: every diff that was cached under the
  comparison has been discarded. This holds in every session, whatever else is in flight.
\<close>

theorem C2_select_file_begins_again:
  assumes "diff_missing (mapStateToProps_compareInfoMap (ss_store s) params) path"
  shows "onSelectFile params (mapStateToProps_compareInfoMap (ss_store s) params) path =
           [dispatch_action (updateSelectedPath path (parseInt10 (rp_headVersionId params))),
            dispatch_fetchDiff
              \<lparr>fp_addonId = parseInt10 (rp_addonId params),
               fp_baseVersionId = parseInt10 (rp_baseVersionId params),
               fp_headVersionId = parseInt10 (rp_headVersionId params),
               fp_path = Some path\<rparr>] \<and>
         (\<exists>request.
            ss_events (selectFile params path s) =
              ss_events s @
              [Dispatched (updateSelectedPath path (parseInt10 (rp_headVersionId params))),
               Dispatched (beginFetchDiff (parseInt10 (rp_addonId params))
                 (parseInt10 (rp_baseVersionId params)) (parseInt10 (rp_headVersionId params))),
               GetDiffCalled request] \<and>
            gd_path request = Some path) \<and>
         getCompareInfoMap (ss_store (selectFile params path s)) (parseInt10 (rp_addonId params))
           (parseInt10 (rp_baseVersionId params)) (parseInt10 (rp_headVersionId params)) =
           Some (Some Map.empty)"
proof -
  let ?a = "parseInt10 (rp_addonId params)"
  let ?b = "parseInt10 (rp_baseVersionId params)"
  let ?h = "parseInt10 (rp_headVersionId params)"
  let ?fp = "\<lparr>fp_addonId = ?a, fp_baseVersionId = ?b, fp_headVersionId = ?h, fp_path = Some path\<rparr>"
  from assms have eff: "onSelectFile params (mapStateToProps_compareInfoMap (ss_store s) params) path =
      [dispatch_action (updateSelectedPath path ?h), dispatch_fetchDiff ?fp]"
    by (simp add: onSelectFile_def)
  have run: "selectFile params path s =
      fetchDiff ?fp (dispatched (updateSelectedPath path ?h)
        ((ss_store s)\<lparr>versionInfo :=
           (versionInfo (ss_store s))(?h \<mapsto> spread_selectedPath (versionInfo (ss_store s) ?h) path)\<rparr>)
        s)"
    by (simp add: selectFile_def eff)
  have ev: "\<exists>request.
      ss_events (selectFile params path s) =
        ss_events s @
        [Dispatched (updateSelectedPath path ?h), Dispatched (beginFetchDiff ?a ?b ?h),
         GetDiffCalled request] \<and>
      gd_path request = Some path"
    by (simp add: run fetchDiff_suspends dispatched_def)
  have st: "getCompareInfoMap (ss_store (selectFile params path s)) ?a ?b ?h = Some (Some Map.empty)"
    by (simp add: run fetchDiff_suspends getCompareInfoMap_def)
  from eff ev st show ?thesis by blast
qed

text \<open>With \<^verbatim>\<open>A\<close> loaded under \<open>(9999, 1, 2)\<close>, selecting \<^verbatim>\<open>B\<close> asks for \<^verbatim>\<open>B\<close> and empties the mapping.\<close>

theorem C2_witness:
  "diff_missing (mapStateToProps_compareInfoMap state_after_load
     (sample_params ''en-US'' ''9999'' ''1'' ''2'')) ''B'' \<and>
   onSelectFile (sample_params ''en-US'' ''9999'' ''1'' ''2'')
     (mapStateToProps_compareInfoMap state_after_load (sample_params ''en-US'' ''9999'' ''1'' ''2''))
     ''B'' =
     [dispatch_action (updateSelectedPath ''B'' (Num 2)),
      dispatch_fetchDiff \<lparr>fp_addonId = Num 9999, fp_baseVersionId = Num 1,
                          fp_headVersionId = Num 2, fp_path = Some ''B''\<rparr>] \<and>
   getCompareInfoMap
     (ss_store (selectFile (sample_params ''en-US'' ''9999'' ''1'' ''2'') ''B''
                  (session_of state_after_load)))
     (Num 9999) (Num 1) (Num 2) = Some (Some Map.empty)"
proof -
  have m: "diff_missing (mapStateToProps_compareInfoMap (ss_store (session_of state_after_load))
     (sample_params ''en-US'' ''9999'' ''1'' ''2'')) ''B''"
    using diff_missing_B by (simp add: session_of_def)
  have st: "ss_store (session_of state_after_load) = state_after_load"
    by (simp add: session_of_def)
  from C2_select_file_begins_again [OF m] diff_missing_B
  show ?thesis by (simp add: sample_route st)
qed

text \<open>
  C2, the claim as stated fails: the diff of \<^verbatim>\<open>A\<close> is cached under \<open>(9999, 1, 2)\<close>; selecting
  \<^verbatim>\<open>B\<close> dispatches \<^verbatim>\<open>beginFetchDiff\<close> as its second action, and when the answer for \<^verbatim>\<open>B\<close>
  has arrived the mapping holds \<^verbatim>\<open>B\<close> only: the diff of \<^verbatim>\<open>A\<close> is gone.
\<close>

theorem C2_sibling_lost_counterexample:
  "getCompareInfoMap state_after_load (Num 9999) (Num 1) (Num 2) =
     Some (Some [''A'' \<mapsto> sample_loaded_info ''A'']) \<and>
   ss_events (selectFile (sample_params ''en-US'' ''9999'' ''1'' ''2'') ''B''
                (session_of state_after_load)) ! 1 =
     Dispatched (beginFetchDiff (Num 9999) (Num 1) (Num 2)) \<and>
   ss_store
     (answer 0 (getDiff_sample \<lparr>gd_addonId = Num 9999, gd_baseVersionId = Num 1,
                  gd_headVersionId = Num 123, gd_path = Some ''B''\<rparr>)
        (selectFile (sample_params ''en-US'' ''9999'' ''1'' ''2'') ''B''
           (session_of state_after_load))) = state_after_select_B \<and>
   getCompareInfoMap state_after_select_B (Num 9999) (Num 1) (Num 2) =
     Some (Some [''B'' \<mapsto> sample_loaded_info ''B''])"
proof -
  have before: "getCompareInfoMap state_after_load (Num 9999) (Num 1) (Num 2) =
      Some (Some [''A'' \<mapsto> sample_loaded_info ''A''])"
    by (simp add: getCompareInfoMap_def getDiffsKey_9999_1_2 state_after_load_def)
  have after: "getCompareInfoMap state_after_select_B (Num 9999) (Num 1) (Num 2) =
      Some (Some [''B'' \<mapsto> sample_loaded_info ''B''])"
    by (simp add: getCompareInfoMap_def getDiffsKey_9999_1_2 state_after_select_B_def)
  have ev: "ss_events (selectFile (sample_params ''en-US'' ''9999'' ''1'' ''2'') ''B''
                (session_of state_after_load)) ! 1 =
     Dispatched (beginFetchDiff (Num 9999) (Num 1) (Num 2))"
    by (simp add: selectFile_sample_B)
  from before after ev selectFile_sample_B_answered show ?thesis by blast
qed

section \<open>Further properties of the reducer and the thunk\<close>

text \<open>
  The key \<^verbatim>\<open>${addonId}/${baseVersionId}/${headVersionId}\<close> is the same for two comparisons
  only when they are the same comparison.
\<close>

theorem getDiffsKey_determines_comparison:
  "getDiffsKey a b h = getDiffsKey a' b' h' \<longleftrightarrow> (a, b, h) = (a', b', h')"
  using getDiffsKey_inj by auto

text \<open>
  \<^verbatim>\<open>updateSelectedPath\<close> writes \<^verbatim>\<open>versionInfo[versionId]\<close> only: a whole version keeps every
  field but its selected path, and diffs, file contents and version lists are untouched.
\<close>

theorem updateSelectedPath_touches_selectedPath_only:
  "\<exists>state'. reducer state (updateSelectedPath selectedPath versionId) = Inr state' \<and>
     diffsByPath state' = diffsByPath state \<and>
     versionFiles state' = versionFiles state \<and>
     byAddonId state' = byAddonId state \<and>
     versionInfo state' =
       (versionInfo state)
         (versionId \<mapsto>
            (case versionInfo state versionId of
               Some (Whole v) \<Rightarrow> Whole (v\<lparr>v_selectedPath := selectedPath\<rparr>)
             | _ \<Rightarrow> SelectedPathOnly selectedPath))"
  by (simp add: spread_selectedPath_def)

text \<open>
  When the API client answers with an error, the rest of the thunk logs it and dispatches
  \<^verbatim>\<open>abortFetchDiff\<close>: nothing is thrown, and the mapping of the comparison is \<^verbatim>\<open>null\<close>.
\<close>

theorem fetchDiff_error_response_aborts:
  "fetchDiff_resumed params (ErrorResponse err) s =
     s\<lparr>ss_events := ss_events s @
          [ErrorLogged (''TODO: handle this error response: '' @ err),
           Dispatched (abortFetchDiff (fp_addonId params) (fp_baseVersionId params)
                         (fp_headVersionId params))],
        ss_store := (ss_store s)\<lparr>diffsByPath :=
          (diffsByPath (ss_store s))
            (getDiffsKey (fp_addonId params) (fp_baseVersionId params)
               (fp_headVersionId params) \<mapsto> None)\<rparr>\<rparr>"
  by (simp add: fetchDiff_resumed_def dispatch_def dispatched_def emit_def Let_def)

text \<open>
  Two fetches in flight at once both land. With \<^verbatim>\<open>A\<close> loaded, \<^verbatim>\<open>B\<close> is selected and then
  \<^verbatim>\<open>C\<close>, before the answer for \<^verbatim>\<open>B\<close> has arrived; the answers then arrive in that order.
  The mapping ends with \<^verbatim>\<open>B\<close> and \<^verbatim>\<open>C\<close>: the second \<^verbatim>\<open>beginFetchDiff\<close> came before either
  answer, and \<^verbatim>\<open>loadDiff\<close> merges.
\<close>

theorem two_scoped_fetches_in_flight:
  "getCompareInfoMap
     (ss_store
        (answer 0 (getDiff_sample \<lparr>gd_addonId = Num 9999, gd_baseVersionId = Num 1,
                     gd_headVersionId = Num 123, gd_path = Some ''C''\<rparr>)
           (answer 0 (getDiff_sample \<lparr>gd_addonId = Num 9999, gd_baseVersionId = Num 1,
                        gd_headVersionId = Num 123, gd_path = Some ''B''\<rparr>)
              (selectFile (sample_params ''en-US'' ''9999'' ''1'' ''2'') ''C''
                 (selectFile (sample_params ''en-US'' ''9999'' ''1'' ''2'') ''B''
                    (session_of state_after_load))))))
     (Num 9999) (Num 1) (Num 2) =
   Some (Some [''B'' \<mapsto> sample_loaded_info ''B'', ''C'' \<mapsto> sample_loaded_info ''C''])"
proof -
  let ?p = "sample_params ''en-US'' ''9999'' ''1'' ''2''"
  let ?fpB = "\<lparr>fp_addonId = Num 9999, fp_baseVersionId = Num 1,
                fp_headVersionId = Num 2, fp_path = Some ''B''\<rparr>"
  let ?fpC = "\<lparr>fp_addonId = Num 9999, fp_baseVersionId = Num 1,
                fp_headVersionId = Num 2, fp_path = Some ''C''\<rparr>"
  let ?sB = "selectFile ?p ''B'' (session_of state_after_load)"
  let ?sC = "selectFile ?p ''C'' ?sB"
  have missing: "diff_missing (mapStateToProps_compareInfoMap (ss_store ?sB) ?p) ''C''"
    by (simp add: selectFile_sample_B diff_missing_def mapStateToProps_compareInfoMap_def
        sample_route getCompareInfoMap_def getDiffsKey_9999_1_2 get_property_def
        object_prototype_keys_def)
  then have eff: "onSelectFile ?p (mapStateToProps_compareInfoMap (ss_store ?sB) ?p) ''C'' =
      [dispatch_action (updateSelectedPath ''C'' (Num 2)), dispatch_fetchDiff ?fpC]"
    by (simp add: onSelectFile_def sample_route)
  have pend: "ss_pending ?sC = ?fpB # [?fpC]"
    unfolding selectFile_def [of ?p "''C''"] eff
    by (simp add: fetchDiff_suspends dispatched_def selectFile_sample_B)
  have map_sC: "diffsByPath (ss_store ?sC) ''9999/1/2'' = Some (Some Map.empty)"
    unfolding selectFile_def [of ?p "''C''"] eff
    by (simp add: fetchDiff_suspends dispatched_def getDiffsKey_9999_1_2)
  let ?aB = "answer 0 (getDiff_sample \<lparr>gd_addonId = Num 9999, gd_baseVersionId = Num 1,
                gd_headVersionId = Num 123, gd_path = Some ''B''\<rparr>) ?sC"
  have aB: "ss_pending ?aB = [?fpC]"
    "diffsByPath (ss_store ?aB) ''9999/1/2'' = Some (Some [''B'' \<mapsto> sample_loaded_info ''B''])"
    by (subst sample_answer [OF pend, where q = "''B''"], simp, simp,
        simp add: map_sC spread_diffs_def)+
  show ?thesis
    by (subst sample_answer [OF aB(1), where q = "''C''"])
       (simp_all add: getCompareInfoMap_def getDiffsKey_9999_1_2 aB(2) spread_diffs_def)
qed

end
